theory Spec2Isabelle
  imports
    Main
    "HOL-Library.Sublist"
    "HOL-Library.Product_Lexorder"
    "HOL-Library.List_Lexorder"
    "HOL-Library.Char_ord"
begin

section \<open>The ADS table inspector (\<^verbatim>\<open>src/utils/check_ads_tables.py\<close>)\<close>

text \<open>
  The script reads one environment variable, opens one database connection, sends a
  fixed sequence of \<^verbatim>\<open>SELECT\<close> statements through one cursor, prints what comes
  back, and closes; one \<^verbatim>\<open>try\<close>/\<^verbatim>\<open>except Exception\<close> wraps everything after the
  environment lookup. The development below has three layers:
  \<^item> the database side (values, stored rows, statements and what the engine answers),
    which is not code of the repository and is modelled after the meaning of the SQL
    the script sends;
  \<^item> the Python side (exceptions as values, the cursor, \<^verbatim>\<open>print\<close>), as an
    exception-and-state monad over a log of everything the process does;
  \<^item> the script itself, statement by statement.
\<close>

subsection \<open>Values, rows and tables\<close>

text \<open>
  Modelled from the spec: the table schemas are not in the repository. The spec's data
  model has integer, text, boolean and timestamp columns; a timestamp is kept as an
  integer on the time line, and \<open>Null\<close> is SQL's \<^verbatim>\<open>NULL\<close> (Python's \<^verbatim>\<open>None\<close>).
\<close>

datatype sqlval = IntV int | TextV string | BoolV bool | TimeV int | Null

text \<open>A stored row maps column names to values; a result tuple is what the driver
  hands to Python for one row of a result set.\<close>

type_synonym row = "(string \<times> sqlval) list"
type_synonym tuple = "sqlval list"
type_synonym database = "string \<rightharpoonup> row list"

definition cell :: "row \<Rightarrow> string \<Rightarrow> sqlval" where
  "cell r c = (case map_of r c of Some v \<Rightarrow> v | None \<Rightarrow> Null)"

subsection \<open>Statements\<close>

text \<open>
  The script passes SQL text to \<^verbatim>\<open>cur.execute\<close>. The statements are kept as syntax
  trees; \<open>sql_text\<close> renders a tree back to the text, so that each statement of the
  script can be compared with the string in the source. \<open>Select p t w ob n\<close> is
  \<^verbatim>\<open>SELECT p FROM t [WHERE w] [ORDER BY ob DESC] [LIMIT n]\<close>.
\<close>

datatype condition = Eq string sqlval

datatype projection = Count_star | Columns "string list"

datatype statement =
    Select projection string "condition option" "string option" "nat option"
  | Insert string row
  | Update string string sqlval "condition option"
  | Delete string "condition option"

fun read_only :: "statement \<Rightarrow> bool" where
  "read_only (Select p t w ob n) = True"
| "read_only (Insert t r) = False"
| "read_only (Update t c v w) = False"
| "read_only (Delete t w) = False"

fun table_of :: "statement \<Rightarrow> string" where
  "table_of (Select p t w ob n) = t"
| "table_of (Insert t r) = t"
| "table_of (Update t c v w) = t"
| "table_of (Delete t w) = t"

fun filter_of :: "statement \<Rightarrow> condition option" where
  "filter_of (Select p t w ob n) = w"
| "filter_of (Insert t r) = None"
| "filter_of (Update t c v w) = w"
| "filter_of (Delete t w) = w"

subsubsection \<open>Decimal numerals\<close>

definition digit :: "nat \<Rightarrow> char" where
  "digit d = ''0123456789'' ! d"

fun str_nat :: "nat \<Rightarrow> string" where
  "str_nat n =
     (if n < 10 then [digit n]
      else str_nat (n div 10) @ [digit (n mod 10)])"

declare str_nat.simps [simp del]

definition str_int :: "int \<Rightarrow> string" where
  "str_int i = (if i < 0 then ''-'' @ str_nat (nat (- i)) else str_nat (nat i))"

subsubsection \<open>Rendering a statement as SQL text\<close>

fun join :: "string \<Rightarrow> string list \<Rightarrow> string" where
  "join sep [] = []"
| "join sep [x] = x"
| "join sep (x # y # ys) = x @ sep @ join sep (y # ys)"

fun sql_literal :: "sqlval \<Rightarrow> string" where
  "sql_literal (IntV i) = str_int i"
| "sql_literal (TextV s) = [CHR 0x27] @ s @ [CHR 0x27]"
| "sql_literal (BoolV b) = (if b then ''true'' else ''false'')"
| "sql_literal (TimeV t) = ''to_timestamp('' @ str_int t @ '')''"
| "sql_literal Null = ''NULL''"

fun sql_where :: "condition option \<Rightarrow> string" where
  "sql_where None = []"
| "sql_where (Some (Eq c v)) = '' WHERE '' @ c @ '' = '' @ sql_literal v"

fun sql_text :: "statement \<Rightarrow> string" where
  "sql_text (Select p t w ob n) =
     ''SELECT '' @ (case p of Count_star \<Rightarrow> ''COUNT(*)'' | Columns cs \<Rightarrow> join '', '' cs)
     @ '' FROM '' @ t @ sql_where w
     @ (case ob of None \<Rightarrow> [] | Some c \<Rightarrow> '' ORDER BY '' @ c @ '' DESC'')
     @ (case n of None \<Rightarrow> [] | Some k \<Rightarrow> '' LIMIT '' @ str_nat k)"
| "sql_text (Insert t r) =
     ''INSERT INTO '' @ t @ '' ('' @ join '', '' (map fst r) @ '') VALUES (''
     @ join '', '' (map (sql_literal \<circ> snd) r) @ '')''"
| "sql_text (Update t c v w) =
     ''UPDATE '' @ t @ '' SET '' @ c @ '' = '' @ sql_literal v @ sql_where w"
| "sql_text (Delete t w) = ''DELETE FROM '' @ t @ sql_where w"

subsection \<open>What the engine answers\<close>

text \<open>
  A comparison with \<^verbatim>\<open>NULL\<close> is never true. \<^verbatim>\<open>ORDER BY c DESC\<close> puts the largest
  value first and, as PostgreSQL does by default, treats \<^verbatim>\<open>NULL\<close> as larger than
  every value; \<open>sql_key\<close> is the sort key. A column holds values of one type, where the
  key orders integers and timestamps by value, booleans with false first and text
  by character codes.
\<close>

fun holds :: "condition option \<Rightarrow> row \<Rightarrow> bool" where
  "holds None r = True"
| "holds (Some (Eq c v)) r = (cell r c \<noteq> Null \<and> cell r c = v)"

fun sql_key :: "sqlval \<Rightarrow> nat \<times> int \<times> string" where
  "sql_key (IntV i) = (0, i, [])"
| "sql_key (TimeV t) = (0, t, [])"
| "sql_key (BoolV b) = (0, if b then 1 else 0, [])"
| "sql_key (TextV s) = (0, 0, s)"
| "sql_key Null = (1, 0, [])"

definition sql_le :: "sqlval \<Rightarrow> sqlval \<Rightarrow> bool" where
  "sql_le a b = (sql_key a \<le> sql_key b)"

definition order_desc :: "string option \<Rightarrow> row list \<Rightarrow> row list" where
  "order_desc ob rs =
     (case ob of None \<Rightarrow> rs | Some c \<Rightarrow> rev (sort_key (\<lambda>r. sql_key (cell r c)) rs))"

definition limit :: "nat option \<Rightarrow> 'a list \<Rightarrow> 'a list" where
  "limit n xs = (case n of None \<Rightarrow> xs | Some k \<Rightarrow> take k xs)"

definition select :: "projection \<Rightarrow> condition option \<Rightarrow> string option \<Rightarrow> nat option
    \<Rightarrow> row list \<Rightarrow> tuple list" where
  "select p w ob n rs =
     (let chosen = filter (holds w) rs in
      case p of
        Count_star \<Rightarrow> limit n [[IntV (int (length chosen))]]
      | Columns cs \<Rightarrow> limit n (map (\<lambda>r. map (cell r) cs) (order_desc ob chosen)))"

text \<open>Everything the script can catch is a subclass of Python's \<^verbatim>\<open>Exception\<close>;
  \<open>str_exc\<close> is \<^verbatim>\<open>str(e)\<close>, the message.\<close>

datatype py_exception =
    OperationalError string
  | ProgrammingError string
  | InterfaceError string
  | TypeError string
  | ValueError string
  | IndexError string
  | UnicodeEncodeError string

fun str_exc :: "py_exception \<Rightarrow> string" where
  "str_exc (OperationalError m) = m"
| "str_exc (ProgrammingError m) = m"
| "str_exc (InterfaceError m) = m"
| "str_exc (TypeError m) = m"
| "str_exc (ValueError m) = m"
| "str_exc (IndexError m) = m"
| "str_exc (UnicodeEncodeError m) = m"

definition undefined_table :: "string \<Rightarrow> py_exception" where
  "undefined_table t = ProgrammingError (''relation '' @ [CHR 0x22] @ t @ [CHR 0x22] @ '' does not exist'')"

text \<open>
  Executing a statement gives an error, or a result set (none for a statement that
  returns no rows) and the tables afterwards. A \<open>Select\<close> leaves the tables as they are;
  the other three statements change them.
\<close>

fun sql_exec :: "statement \<Rightarrow> database \<Rightarrow> py_exception + (tuple list option \<times> database)" where
  "sql_exec (Select p t w ob n) db =
     (case db t of
        None \<Rightarrow> Inl (undefined_table t)
      | Some rs \<Rightarrow> Inr (Some (select p w ob n rs), db))"
| "sql_exec (Insert t r) db =
     (case db t of
        None \<Rightarrow> Inl (undefined_table t)
      | Some rs \<Rightarrow> Inr (None, db(t \<mapsto> rs @ [r])))"
| "sql_exec (Update t c v w) db =
     (case db t of
        None \<Rightarrow> Inl (undefined_table t)
      | Some rs \<Rightarrow> Inr (None, db(t \<mapsto> map (\<lambda>r. if holds w r then (c, v) # r else r) rs)))"
| "sql_exec (Delete t w) db =
     (case db t of
        None \<Rightarrow> Inl (undefined_table t)
      | Some rs \<Rightarrow> Inr (None, db(t \<mapsto> filter (\<lambda>r. \<not> holds w r) rs)))"

subsection \<open>The process: log, connection, cursor\<close>

text \<open>
  Everything the process does is appended to a log: the connection attempt, each
  statement sent, each fetch with what it returned, each \<^verbatim>\<open>print\<close> call with its
  argument, and the two \<^verbatim>\<open>close\<close> calls. Standard output is the \<open>Print\<close> entries.
\<close>

datatype event =
    Connect string
  | Execute statement
  | Fetchone "tuple option"
  | Fetchall "tuple list"
  | Print string
  | Close_cursor
  | Close_connection

text \<open>
  What \<^verbatim>\<open>psycopg2.connect\<close> finds at a connection string: an error, or a session, which
  is the tables behind it and, for any reason the tables do not explain (a lost
  connection, missing privileges, a timeout), the statements the server refuses and
  the error it refuses them with.
\<close>

record session =
  tables :: database
  refuses :: "statement \<Rightarrow> py_exception option"

type_synonym world = "string \<Rightarrow> py_exception + session"

text \<open>
  The state of the run: the log, the session at the other end of the connection (none
  before \<^verbatim>\<open>connect\<close> succeeds; it stays after \<^verbatim>\<open>close\<close>, so that the tables can be compared
  with what they were), whether the connection is open, and the cursor's result set
  (none before a statement has returned rows).
\<close>

record state =
  log :: "event list"
  server :: "session option"
  conn_open :: bool
  cursor :: "tuple list option"

definition initial :: state where
  "initial = \<lparr>log = [], server = None, conn_open = False, cursor = None\<rparr>"

definition printed :: "event list \<Rightarrow> string list" where
  "printed evs = concat (map (\<lambda>e. case e of Print l \<Rightarrow> [l] | _ \<Rightarrow> []) evs)"

definition statements :: "event list \<Rightarrow> statement list" where
  "statements evs = concat (map (\<lambda>e. case e of Execute q \<Rightarrow> [q] | _ \<Rightarrow> []) evs)"

definition connections :: "event list \<Rightarrow> string list" where
  "connections evs = concat (map (\<lambda>e. case e of Connect dsn \<Rightarrow> [dsn] | _ \<Rightarrow> []) evs)"

definition fetched :: "event list \<Rightarrow> tuple list list" where
  "fetched evs = concat (map (\<lambda>e. case e of Fetchall ts \<Rightarrow> [ts] | _ \<Rightarrow> []) evs)"

definition stdout :: "state \<Rightarrow> string list" where
  "stdout s = printed (log s)"

definition issued :: "state \<Rightarrow> statement list" where
  "issued s = statements (log s)"

text \<open>A Python action either raises or returns a value, and leaves a state behind in
  both cases: what was printed before an exception stays printed.\<close>

type_synonym 'a py = "state \<Rightarrow> (py_exception + 'a) \<times> state"

definition py_return :: "'a \<Rightarrow> 'a py" where
  "py_return x s = (Inr x, s)"

definition py_raise :: "py_exception \<Rightarrow> 'a py" where
  "py_raise e s = (Inl e, s)"

definition py_bind :: "'a py \<Rightarrow> ('a \<Rightarrow> 'b py) \<Rightarrow> 'b py" where
  "py_bind m f s = (case m s of (Inl e, s') \<Rightarrow> (Inl e, s') | (Inr x, s') \<Rightarrow> f x s')"

definition record_event :: "event \<Rightarrow> state \<Rightarrow> state" where
  "record_event e s = s\<lparr>log := log s @ [e]\<rparr>"

text \<open>
  \<^verbatim>\<open>print(line)\<close> writes the line or raises: a standard output whose encoding lacks a
  character of the line raises \<^verbatim>\<open>UnicodeEncodeError\<close> and writes nothing of it. What
  standard output does with a line is a parameter of the run: \<open>None\<close> when it takes the
  line, the exception otherwise. \<open>accepting\<close> takes every line; \<open>ascii_only\<close> takes the
  lines made of ASCII characters and no other (the script's marks are outside ASCII).
\<close>

type_synonym sink = "string \<Rightarrow> py_exception option"

definition print_on :: "sink \<Rightarrow> string \<Rightarrow> unit py" where
  "print_on out line s =
     (case out line of
        None \<Rightarrow> (Inr (), record_event (Print line) s)
      | Some e \<Rightarrow> (Inl e, s))"

definition accepting :: sink where
  "accepting line = None"


definition connect :: "world \<Rightarrow> string \<Rightarrow> unit py" where
  "connect w dsn s =
     (case w dsn of
        Inl e \<Rightarrow> (Inl e, record_event (Connect dsn) s)
      | Inr sess \<Rightarrow>
          (Inr (), (record_event (Connect dsn) s)\<lparr>server := Some sess, conn_open := True\<rparr>))"

definition closed_connection :: py_exception where
  "closed_connection = InterfaceError ''connection already closed''"

definition new_cursor :: "unit py" where
  "new_cursor s =
     (if conn_open s then (Inr (), s\<lparr>cursor := None\<rparr>) else (Inl closed_connection, s))"

text \<open>\<^verbatim>\<open>cur.execute(q)\<close> discards the cursor's previous result set and sends the statement;
  the statement is in the log whether the server then answers or refuses.\<close>

definition execute :: "statement \<Rightarrow> unit py" where
  "execute q s =
     (case (if conn_open s then server s else None) of
        None \<Rightarrow> (Inl closed_connection, s)
      | Some sess \<Rightarrow>
          (let sent = (record_event (Execute q) s)\<lparr>cursor := None\<rparr> in
           case refuses sess q of
             Some e \<Rightarrow> (Inl e, sent)
           | None \<Rightarrow>
               (case sql_exec q (tables sess) of
                  Inl e \<Rightarrow> (Inl e, sent)
                | Inr (res, db') \<Rightarrow>
                    (Inr (), sent\<lparr>server := Some (sess\<lparr>tables := db'\<rparr>), cursor := res\<rparr>))))"

definition no_results :: py_exception where
  "no_results = ProgrammingError ''no results to fetch''"

definition fetchone :: "tuple option py" where
  "fetchone s =
     (case cursor s of
        None \<Rightarrow> (Inl no_results, s)
      | Some [] \<Rightarrow> (Inr None, record_event (Fetchone None) s)
      | Some (t # ts) \<Rightarrow>
          (Inr (Some t), (record_event (Fetchone (Some t)) s)\<lparr>cursor := Some ts\<rparr>))"

definition fetchall :: "tuple list py" where
  "fetchall s =
     (case cursor s of
        None \<Rightarrow> (Inl no_results, s)
      | Some ts \<Rightarrow> (Inr ts, (record_event (Fetchall ts) s)\<lparr>cursor := Some []\<rparr>))"

definition close_cursor :: "unit py" where
  "close_cursor s = (Inr (), (record_event Close_cursor s)\<lparr>cursor := None\<rparr>)"

definition close_connection :: "unit py" where
  "close_connection s = (Inr (), (record_event Close_connection s)\<lparr>conn_open := False\<rparr>)"

subsection \<open>Python expressions the script uses\<close>

text \<open>\<open>py_str\<close> is \<^verbatim>\<open>str(v)\<close>, which an f-string applies to each value it formats. How
  the driver's \<^verbatim>\<open>datetime\<close> prints is a parameter, \<open>str_time\<close>.\<close>

fun py_str :: "(int \<Rightarrow> string) \<Rightarrow> sqlval \<Rightarrow> string" where
  "py_str str_time (IntV i) = str_int i"
| "py_str str_time (TextV s) = s"
| "py_str str_time (BoolV b) = (if b then ''True'' else ''False'')"
| "py_str str_time (TimeV t) = str_time t"
| "py_str str_time Null = ''None''"

text \<open>\<^verbatim>\<open>cur.fetchone()[0]\<close>: subscripting \<^verbatim>\<open>None\<close> is a \<^verbatim>\<open>TypeError\<close>, subscripting an
  empty tuple an \<^verbatim>\<open>IndexError\<close>.\<close>

fun subscript0 :: "tuple option \<Rightarrow> sqlval py" where
  "subscript0 None = py_raise (TypeError ''NoneType object is not subscriptable'')"
| "subscript0 (Some []) = py_raise (IndexError ''tuple index out of range'')"
| "subscript0 (Some (v # vs)) = py_return v"

text \<open>\<^verbatim>\<open>v > 0\<close>: defined on Python's numbers (\<^verbatim>\<open>True\<close> is 1), a \<^verbatim>\<open>TypeError\<close> on a string,
  a \<^verbatim>\<open>datetime\<close> or \<^verbatim>\<open>None\<close>.\<close>

fun greater_than_zero :: "sqlval \<Rightarrow> bool py" where
  "greater_than_zero (IntV i) = py_return (i > 0)"
| "greater_than_zero (BoolV b) = py_return b"
| "greater_than_zero v = py_raise (TypeError ''> not supported between these instances'')"

text \<open>Unpacking a tuple into \<open>n\<close> names is a \<^verbatim>\<open>ValueError\<close> when the tuple has another
  length.\<close>

definition unpack_error :: "nat \<Rightarrow> nat \<Rightarrow> py_exception" where
  "unpack_error expected got =
     (if got < expected
      then ValueError (''not enough values to unpack (expected '' @ str_nat expected
             @ '', got '' @ str_nat got @ '')'')
      else ValueError (''too many values to unpack (expected '' @ str_nat expected @ '')''))"

text \<open>The non-ASCII characters of the script's messages, as the bytes standard output
  receives (UTF-8).\<close>

definition magnifier :: string where
  "magnifier = [CHR 0xF0, CHR 0x9F, CHR 0x94, CHR 0x8D]"

definition chart :: string where
  "chart = [CHR 0xF0, CHR 0x9F, CHR 0x93, CHR 0x8A]"

definition memo :: string where
  "memo = [CHR 0xF0, CHR 0x9F, CHR 0x93, CHR 0x9D]"

definition cross :: string where
  "cross = [CHR 0xE2, CHR 0x9D, CHR 0x8C]"

definition bulb :: string where
  "bulb = [CHR 0xF0, CHR 0x9F, CHR 0x92, CHR 0xA1]"

fun unpack2 :: "tuple \<Rightarrow> (sqlval \<times> sqlval) py" where
  "unpack2 [a, b] = py_return (a, b)"
| "unpack2 t = py_raise (unpack_error 2 (length t))"

fun unpack3 :: "tuple \<Rightarrow> (sqlval \<times> sqlval \<times> sqlval) py" where
  "unpack3 [a, b, c] = py_return (a, b, c)"
| "unpack3 t = py_raise (unpack_error 3 (length t))"

fun unpack4 :: "tuple \<Rightarrow> (sqlval \<times> sqlval \<times> sqlval \<times> sqlval) py" where
  "unpack4 [a, b, c, d] = py_return (a, b, c, d)"
| "unpack4 t = py_raise (unpack_error 4 (length t))"

definition py_try :: "'a py \<Rightarrow> (py_exception \<Rightarrow> 'a py) \<Rightarrow> 'a py" where
  "py_try body handler s =
     (case body s of (Inl e, s') \<Rightarrow> handler e s' | (Inr x, s') \<Rightarrow> (Inr x, s'))"

subsection \<open>The script\<close>

text \<open>
  Every part of the script that prints takes \<open>out\<close>, what standard output does with a
  line, as its first argument; \<open>str_time\<close> is how a \<^verbatim>\<open>datetime\<close> prints.
\<close>

text \<open>Line 9: \<^verbatim>\<open>os.environ.get('DATABASE_URL', 'postgres://postgres@localhost:5432/postgres')\<close>.\<close>

definition database_url :: "(string \<rightharpoonup> string) \<Rightarrow> string" where
  "database_url environ =
     (case environ ''DATABASE_URL'' of
        Some v \<Rightarrow> v
      | None \<Rightarrow> ''postgres://postgres@localhost:5432/postgres'')"

text \<open>The six statements, in the order of lines 19, 24, 31, 36, 43 and 52.\<close>

definition active_only :: "condition option" where
  "active_only = Some (Eq ''is_active'' (BoolV True))"

definition count_nullifiers_query :: statement where
  "count_nullifiers_query = Select Count_star ''nullifiers'' active_only None None"

definition recent_nullifiers_query :: statement where
  "recent_nullifiers_query =
     Select (Columns [''value'', ''tree_index'', ''created_at'']) ''nullifiers''
       active_only (Some ''created_at'') (Some 3)"

definition count_commits_query :: statement where
  "count_commits_query = Select Count_star ''ads_state_commits'' None None None"

definition recent_commits_query :: statement where
  "recent_commits_query =
     Select (Columns [''batch_id'', ''created_at'']) ''ads_state_commits''
       None (Some ''created_at'') (Some 3)"

definition default_tree :: "condition option" where
  "default_tree = Some (Eq ''tree_id'' (TextV ''default''))"

definition tree_state_query :: statement where
  "tree_state_query =
     Select (Columns [''total_nullifiers'', ''next_available_index'', ''updated_at''])
       ''tree_state'' default_tree None None"

definition recent_batches_query :: statement where
  "recent_batches_query =
     Select (Columns [''id'', ''transaction_count'', ''proof_status'', ''created_at''])
       ''proof_batches'' None (Some ''created_at'') (Some 3)"

text \<open>Lines 27-28, 39-40 and 55-56: the three \<^verbatim>\<open>for\<close> loops, each unpacking a tuple
  and printing one line.\<close>

definition nullifier_line :: "(int \<Rightarrow> string) \<Rightarrow> sqlval \<Rightarrow> sqlval \<Rightarrow> sqlval \<Rightarrow> string" where
  "nullifier_line str_time val tree_index created_at =
     ''   Value: '' @ py_str str_time val
     @ '', Tree Index: '' @ py_str str_time tree_index
     @ '', Created: '' @ py_str str_time created_at"

fun print_nullifiers_on :: "sink \<Rightarrow> (int \<Rightarrow> string) \<Rightarrow> tuple list \<Rightarrow> unit py" where
  "print_nullifiers_on out str_time [] = py_return ()"
| "print_nullifiers_on out str_time (t # rest) =
     py_bind (unpack3 t) (\<lambda>(val, tree_index, created_at).
     py_bind (print_on out (nullifier_line str_time val tree_index created_at)) (\<lambda>_.
     print_nullifiers_on out str_time rest))"

definition commit_line :: "(int \<Rightarrow> string) \<Rightarrow> sqlval \<Rightarrow> sqlval \<Rightarrow> string" where
  "commit_line str_time batch_id created_at =
     ''   Batch ID: '' @ py_str str_time batch_id
     @ '', Created: '' @ py_str str_time created_at"

fun print_commits_on :: "sink \<Rightarrow> (int \<Rightarrow> string) \<Rightarrow> tuple list \<Rightarrow> unit py" where
  "print_commits_on out str_time [] = py_return ()"
| "print_commits_on out str_time (t # rest) =
     py_bind (unpack2 t) (\<lambda>(batch_id, created_at).
     py_bind (print_on out (commit_line str_time batch_id created_at)) (\<lambda>_.
     print_commits_on out str_time rest))"

definition batch_line :: "(int \<Rightarrow> string) \<Rightarrow> sqlval \<Rightarrow> sqlval \<Rightarrow> sqlval \<Rightarrow> sqlval \<Rightarrow> string" where
  "batch_line str_time batch_id tx_count status created_at =
     ''   Batch '' @ py_str str_time batch_id
     @ '': '' @ py_str str_time tx_count
     @ '' txns, status: '' @ py_str str_time status
     @ '', created: '' @ py_str str_time created_at"

fun print_batches_on :: "sink \<Rightarrow> (int \<Rightarrow> string) \<Rightarrow> tuple list \<Rightarrow> unit py" where
  "print_batches_on out str_time [] = py_return ()"
| "print_batches_on out str_time (t # rest) =
     py_bind (unpack4 t) (\<lambda>(batch_id, tx_count, status, created_at).
     py_bind (print_on out (batch_line str_time batch_id tx_count status created_at)) (\<lambda>_.
     print_batches_on out str_time rest))"

text \<open>Lines 18-28.\<close>

definition nullifier_count_line :: "(int \<Rightarrow> string) \<Rightarrow> sqlval \<Rightarrow> string" where
  "nullifier_count_line str_time nullifier_count =
     chart @ '' Active nullifiers: '' @ py_str str_time nullifier_count"

definition nullifiers_header :: string where
  "nullifiers_header = memo @ '' Recent nullifiers:''"

definition check_nullifiers_on :: "sink \<Rightarrow> (int \<Rightarrow> string) \<Rightarrow> unit py" where
  "check_nullifiers_on out str_time =
     py_bind (execute count_nullifiers_query) (\<lambda>_.
     py_bind fetchone (\<lambda>fetched.
     py_bind (subscript0 fetched) (\<lambda>nullifier_count.
     py_bind (print_on out (nullifier_count_line str_time nullifier_count)) (\<lambda>_.
     py_bind (greater_than_zero nullifier_count) (\<lambda>positive.
     if positive then
       py_bind (execute recent_nullifiers_query) (\<lambda>_.
       py_bind fetchall (\<lambda>recent_nullifiers.
       py_bind (print_on out nullifiers_header) (\<lambda>_.
       print_nullifiers_on out str_time recent_nullifiers)))
     else py_return ())))))"

text \<open>Lines 30-40.\<close>

definition commit_count_line :: "(int \<Rightarrow> string) \<Rightarrow> sqlval \<Rightarrow> string" where
  "commit_count_line str_time commit_count =
     chart @ '' ADS state commits: '' @ py_str str_time commit_count"

definition commits_header :: string where
  "commits_header = memo @ '' Recent ADS commits:''"

definition check_commits_on :: "sink \<Rightarrow> (int \<Rightarrow> string) \<Rightarrow> unit py" where
  "check_commits_on out str_time =
     py_bind (execute count_commits_query) (\<lambda>_.
     py_bind fetchone (\<lambda>fetched.
     py_bind (subscript0 fetched) (\<lambda>commit_count.
     py_bind (print_on out (commit_count_line str_time commit_count)) (\<lambda>_.
     py_bind (greater_than_zero commit_count) (\<lambda>positive.
     if positive then
       py_bind (execute recent_commits_query) (\<lambda>_.
       py_bind fetchall (\<lambda>recent_commits.
       py_bind (print_on out commits_header) (\<lambda>_.
       print_commits_on out str_time recent_commits)))
     else py_return ())))))"

text \<open>Lines 42-49. \<^verbatim>\<open>if tree_state:\<close> is false for \<^verbatim>\<open>None\<close> and for an empty tuple.\<close>

definition no_tree_state :: string where
  "no_tree_state = cross @ '' No default tree state found''"

definition tree_state_line :: "(int \<Rightarrow> string) \<Rightarrow> sqlval \<Rightarrow> sqlval \<Rightarrow> sqlval \<Rightarrow> string" where
  "tree_state_line str_time total_nullifiers next_index updated_at =
     chart @ '' Tree state: '' @ py_str str_time total_nullifiers
     @ '' nullifiers, next index: '' @ py_str str_time next_index
     @ '', updated: '' @ py_str str_time updated_at"

definition check_tree_state_on :: "sink \<Rightarrow> (int \<Rightarrow> string) \<Rightarrow> unit py" where
  "check_tree_state_on out str_time =
     py_bind (execute tree_state_query) (\<lambda>_.
     py_bind fetchone (\<lambda>tree_state.
     case tree_state of
       Some (v # vs) \<Rightarrow>
         py_bind (unpack3 (v # vs)) (\<lambda>(total_nullifiers, next_index, updated_at).
         print_on out (tree_state_line str_time total_nullifiers next_index updated_at))
     | _ \<Rightarrow> print_on out no_tree_state))"

text \<open>Lines 51-56.\<close>

definition batches_header :: string where
  "batches_header = memo @ '' Recent batches:''"

definition check_batches_on :: "sink \<Rightarrow> (int \<Rightarrow> string) \<Rightarrow> unit py" where
  "check_batches_on out str_time =
     py_bind (execute recent_batches_query) (\<lambda>_.
     py_bind fetchall (\<lambda>recent_batches.
     py_bind (print_on out batches_header) (\<lambda>_.
     print_batches_on out str_time recent_batches)))"

text \<open>Lines 12-59, the body of the \<^verbatim>\<open>try\<close>.\<close>

definition banner :: string where
  "banner = magnifier @ '' Checking ADS table contents...''"

definition try_body_on :: "sink \<Rightarrow> (int \<Rightarrow> string) \<Rightarrow> world \<Rightarrow> string \<Rightarrow> unit py" where
  "try_body_on out str_time w url =
     py_bind (connect w url) (\<lambda>_.
     py_bind new_cursor (\<lambda>_.
     py_bind (print_on out banner) (\<lambda>_.
     py_bind (check_nullifiers_on out str_time) (\<lambda>_.
     py_bind (check_commits_on out str_time) (\<lambda>_.
     py_bind (check_tree_state_on out str_time) (\<lambda>_.
     py_bind (check_batches_on out str_time) (\<lambda>_.
     py_bind close_cursor (\<lambda>_.
     close_connection))))))))"

text \<open>Lines 61-63, the handler.\<close>

definition error_line :: "py_exception \<Rightarrow> string" where
  "error_line e = cross @ '' Error connecting to database: '' @ str_exc e"

definition hint_line :: "string \<Rightarrow> string" where
  "hint_line url = bulb @ '' Make sure DATABASE_URL is set correctly: '' @ url"

definition except_handler_on :: "sink \<Rightarrow> string \<Rightarrow> py_exception \<Rightarrow> unit py" where
  "except_handler_on out url e =
     py_bind (print_on out (error_line e)) (\<lambda>_. print_on out (hint_line url))"

text \<open>
  The whole script, run in a fresh process. Nothing follows the \<^verbatim>\<open>try\<close> statement and
  the script never calls \<^verbatim>\<open>sys.exit\<close>, so the interpreter's exit status is 0 when the
  \<^verbatim>\<open>try\<close> statement completes (through its body or through its handler) and 1 when
  an exception leaves it, which an exception raised inside the handler does.
\<close>

definition main_on :: "sink \<Rightarrow> (int \<Rightarrow> string) \<Rightarrow> (string \<rightharpoonup> string) \<Rightarrow> world
    \<Rightarrow> (py_exception + unit) \<times> state" where
  "main_on out str_time environ w =
     (let url = database_url environ
      in py_try (try_body_on out str_time w url) (except_handler_on out url) initial)"


text \<open>Whether the body of the \<^verbatim>\<open>try\<close> ran to its end, and the state it left.\<close>

definition body_outcome_on :: "sink \<Rightarrow> (int \<Rightarrow> string) \<Rightarrow> (string \<rightharpoonup> string) \<Rightarrow> world
    \<Rightarrow> (py_exception + unit) \<times> state" where
  "body_outcome_on out str_time environ w =
     try_body_on out str_time w (database_url environ) initial"

subsection \<open>The script on a standard output that takes every line\<close>

text \<open>
  Most properties below are about what the script sends and prints, and take a standard
  output that accepts what is printed: these are the script and its parts at
  \<open>accepting\<close>.
\<close>

definition print :: "string \<Rightarrow> unit py" where
  "print = print_on accepting"

definition print_nullifiers :: "(int \<Rightarrow> string) \<Rightarrow> tuple list \<Rightarrow> unit py" where
  "print_nullifiers = print_nullifiers_on accepting"

definition print_commits :: "(int \<Rightarrow> string) \<Rightarrow> tuple list \<Rightarrow> unit py" where
  "print_commits = print_commits_on accepting"

definition print_batches :: "(int \<Rightarrow> string) \<Rightarrow> tuple list \<Rightarrow> unit py" where
  "print_batches = print_batches_on accepting"

definition check_nullifiers :: "(int \<Rightarrow> string) \<Rightarrow> unit py" where
  "check_nullifiers = check_nullifiers_on accepting"

definition check_commits :: "(int \<Rightarrow> string) \<Rightarrow> unit py" where
  "check_commits = check_commits_on accepting"

definition check_tree_state :: "(int \<Rightarrow> string) \<Rightarrow> unit py" where
  "check_tree_state = check_tree_state_on accepting"

definition check_batches :: "(int \<Rightarrow> string) \<Rightarrow> unit py" where
  "check_batches = check_batches_on accepting"

definition try_body :: "(int \<Rightarrow> string) \<Rightarrow> world \<Rightarrow> string \<Rightarrow> unit py" where
  "try_body = try_body_on accepting"

definition except_handler :: "string \<Rightarrow> py_exception \<Rightarrow> unit py" where
  "except_handler = except_handler_on accepting"

definition main :: "(int \<Rightarrow> string) \<Rightarrow> (string \<rightharpoonup> string) \<Rightarrow> world
    \<Rightarrow> (py_exception + unit) \<times> state" where
  "main = main_on accepting"

definition body_outcome :: "(int \<Rightarrow> string) \<Rightarrow> (string \<rightharpoonup> string) \<Rightarrow> world
    \<Rightarrow> (py_exception + unit) \<times> state" where
  "body_outcome = body_outcome_on accepting"

subsection \<open>Reading the log\<close>

text \<open>
  The stage of the run an event belongs to: connecting, querying one table, closing.
  Fetches and prints belong to no stage of their own. \<open>stages\<close> is the sequence of
  stages a log went through, each maximal run of one stage counted once, and
  \<open>linear_order\<close> is the order the specification gives: connect, nullifiers, commits,
  tree state, batches, close.
\<close>

datatype stage = Connecting | Querying string | Closing

fun stage_of :: "event \<Rightarrow> stage list" where
  "stage_of (Connect dsn) = [Connecting]"
| "stage_of (Execute q) = [Querying (table_of q)]"
| "stage_of Close_cursor = [Closing]"
| "stage_of Close_connection = [Closing]"
| "stage_of (Fetchone t) = []"
| "stage_of (Fetchall ts) = []"
| "stage_of (Print l) = []"

definition stages :: "event list \<Rightarrow> stage list" where
  "stages evs = remdups_adj (concat (map stage_of evs))"

definition linear_order :: "stage list" where
  "linear_order =
     [Connecting, Querying ''nullifiers'', Querying ''ads_state_commits'',
      Querying ''tree_state'', Querying ''proof_batches'', Closing]"

text \<open>In each of the three statements with \<^verbatim>\<open>ORDER BY created_at DESC\<close> the creation
  time is the last column selected, so it is the last component of a fetched tuple.
  \<open>newest_first\<close>: no tuple is followed, anywhere later, by one created after it.\<close>

definition created_at :: "tuple \<Rightarrow> sqlval" where
  "created_at t = last t"

definition newest_first :: "tuple list \<Rightarrow> bool" where
  "newest_first ts = sorted_wrt (\<lambda>a b. sql_le (created_at b) (created_at a)) ts"

subsection \<open>A part of the script on its own\<close>

text \<open>
  \<open>probe sess\<close> is a state with an open connection to \<open>sess\<close>, an empty log and a fresh
  cursor. What a part of the script does there is its \<open>outcome\<close> (whether it raises)
  and its \<open>events\<close>. An action is \<open>steady\<close> when it reads nothing of the log, only
  appends to it, and changes nothing else but the cursor.
\<close>

definition probe :: "session \<Rightarrow> state" where
  "probe sess = \<lparr>log = [], server = Some sess, conn_open = True, cursor = None\<rparr>"

definition outcome :: "unit py \<Rightarrow> session \<Rightarrow> py_exception + unit" where
  "outcome m sess = fst (m (probe sess))"

definition events :: "unit py \<Rightarrow> session \<Rightarrow> event list" where
  "events m sess = log (snd (m (probe sess)))"

definition ok :: "py_exception + unit \<Rightarrow> bool" where
  "ok r = (case r of Inl e \<Rightarrow> False | Inr u \<Rightarrow> True)"

definition reset :: "state \<Rightarrow> state" where
  "reset s = s\<lparr>log := []\<rparr>"

definition steady :: "'a py \<Rightarrow> bool" where
  "steady m = (\<forall>s. m s = (fst (m (reset s)),
      s\<lparr>log := log s @ log (snd (m (reset s))), cursor := cursor (snd (m (reset s)))\<rparr>))"

text \<open>A \<open>part\<close> of the script is steady and starts by sending a statement, so that on an
  open connection it does not depend on the cursor it finds.\<close>

definition part :: "'a py \<Rightarrow> bool" where
  "part m = (steady m \<and>
     (\<forall>s c. conn_open s \<longrightarrow> server s \<noteq> None \<longrightarrow> m (s\<lparr>cursor := c\<rparr>) = m s))"

subsection \<open>Example worlds\<close>

text \<open>A world where nothing answers at any connection string.\<close>

definition unreachable :: world where
  "unreachable dsn = Inl (OperationalError (''could not connect to '' @ dsn))"

text \<open>A server that refuses nothing; a database with the four tables and no row.\<close>

definition no_refusal :: "statement \<Rightarrow> py_exception option" where
  "no_refusal q = None"

definition empty_db :: database where
  "empty_db = [''nullifiers'' \<mapsto> [], ''ads_state_commits'' \<mapsto> [], ''tree_state'' \<mapsto> [],
               ''proof_batches'' \<mapsto> []]"

definition empty_session :: session where
  "empty_session = \<lparr>tables = empty_db, refuses = no_refusal\<rparr>"

definition empty_world :: world where
  "empty_world dsn = Inr empty_session"

text \<open>
  The first end-to-end scenario of the specification: five active nullifiers (and one
  inactive), two state commits, the \<^verbatim>\<open>default\<close> tree state with both numbers 5, four
  proof batches.
\<close>

definition nullifier_row :: "string \<Rightarrow> int \<Rightarrow> int \<Rightarrow> bool \<Rightarrow> row" where
  "nullifier_row v i t a =
     [(''value'', TextV v), (''tree_index'', IntV i), (''created_at'', TimeV t),
      (''is_active'', BoolV a)]"

definition commit_row :: "int \<Rightarrow> int \<Rightarrow> row" where
  "commit_row b t = [(''batch_id'', IntV b), (''created_at'', TimeV t)]"

definition batch_row :: "int \<Rightarrow> int \<Rightarrow> string \<Rightarrow> int \<Rightarrow> row" where
  "batch_row i n st t =
     [(''id'', IntV i), (''transaction_count'', IntV n), (''proof_status'', TextV st),
      (''created_at'', TimeV t)]"

definition sample_db :: database where
  "sample_db =
     [''nullifiers'' \<mapsto>
        [nullifier_row ''n0'' 0 100 True, nullifier_row ''n1'' 1 300 True,
         nullifier_row ''n2'' 2 200 True, nullifier_row ''n3'' 3 500 True,
         nullifier_row ''n4'' 4 400 True, nullifier_row ''old'' 9 600 False],
      ''ads_state_commits'' \<mapsto> [commit_row 1 150, commit_row 2 450],
      ''tree_state'' \<mapsto>
        [[(''tree_id'', TextV ''default''), (''total_nullifiers'', IntV 5),
          (''next_available_index'', IntV 5), (''updated_at'', TimeV 500)]],
      ''proof_batches'' \<mapsto>
        [batch_row 1 3 ''proven'' 150, batch_row 2 2 ''proven'' 450,
         batch_row 3 1 ''pending'' 550, batch_row 4 7 ''pending'' 350]]"

definition sample_session :: session where
  "sample_session = \<lparr>tables = sample_db, refuses = no_refusal\<rparr>"

definition sample_world :: world where
  "sample_world dsn = Inr sample_session"

text \<open>The same tables behind a server that drops the connection when the detail
  statement for state commits arrives.\<close>

definition dropping :: "statement \<Rightarrow> py_exception option" where
  "dropping q =
     (if q = recent_commits_query
      then Some (OperationalError ''server closed the connection unexpectedly'')
      else None)"

definition dropped_session :: session where
  "dropped_session = \<lparr>tables = sample_db, refuses = dropping\<rparr>"

definition dropped_world :: world where
  "dropped_world dsn = Inr dropped_session"

section \<open>Properties\<close>

subsection \<open>The script where every line is taken\<close>

text \<open>At \<open>accepting\<close>, \<^verbatim>\<open>print\<close> never raises, and the parts of the script read as follows.\<close>

lemma print_unfold: "print line s = (Inr (), record_event (Print line) s)"
  by (simp add: print_def print_on_def accepting_def)

lemma print_on_accepting: "print_on accepting = print"
  by (simp add: print_def)

lemma print_nullifiers_simps [simp]:
  "print_nullifiers str_time [] = py_return ()"
  "print_nullifiers str_time (t # rest) =
     py_bind (unpack3 t) (\<lambda>(val, tree_index, created_at).
     py_bind (print (nullifier_line str_time val tree_index created_at)) (\<lambda>_.
     print_nullifiers str_time rest))"
  by (simp_all add: print_nullifiers_def print_on_accepting)

lemma print_commits_simps [simp]:
  "print_commits str_time [] = py_return ()"
  "print_commits str_time (t # rest) =
     py_bind (unpack2 t) (\<lambda>(batch_id, created_at).
     py_bind (print (commit_line str_time batch_id created_at)) (\<lambda>_.
     print_commits str_time rest))"
  by (simp_all add: print_commits_def print_on_accepting)

lemma print_batches_simps [simp]:
  "print_batches str_time [] = py_return ()"
  "print_batches str_time (t # rest) =
     py_bind (unpack4 t) (\<lambda>(batch_id, tx_count, status, created_at).
     py_bind (print (batch_line str_time batch_id tx_count status created_at)) (\<lambda>_.
     print_batches str_time rest))"
  by (simp_all add: print_batches_def print_on_accepting)

lemma check_nullifiers_unfold:
  "check_nullifiers str_time =
     py_bind (execute count_nullifiers_query) (\<lambda>_.
     py_bind fetchone (\<lambda>fetched.
     py_bind (subscript0 fetched) (\<lambda>nullifier_count.
     py_bind (print (nullifier_count_line str_time nullifier_count)) (\<lambda>_.
     py_bind (greater_than_zero nullifier_count) (\<lambda>positive.
     if positive then
       py_bind (execute recent_nullifiers_query) (\<lambda>_.
       py_bind fetchall (\<lambda>recent_nullifiers.
       py_bind (print nullifiers_header) (\<lambda>_.
       print_nullifiers str_time recent_nullifiers)))
     else py_return ())))))"
  unfolding check_nullifiers_def check_nullifiers_on_def print_def print_nullifiers_def
  by (rule refl)

lemma check_commits_unfold:
  "check_commits str_time =
     py_bind (execute count_commits_query) (\<lambda>_.
     py_bind fetchone (\<lambda>fetched.
     py_bind (subscript0 fetched) (\<lambda>commit_count.
     py_bind (print (commit_count_line str_time commit_count)) (\<lambda>_.
     py_bind (greater_than_zero commit_count) (\<lambda>positive.
     if positive then
       py_bind (execute recent_commits_query) (\<lambda>_.
       py_bind fetchall (\<lambda>recent_commits.
       py_bind (print commits_header) (\<lambda>_.
       print_commits str_time recent_commits)))
     else py_return ())))))"
  unfolding check_commits_def check_commits_on_def print_def print_commits_def
  by (rule refl)

lemma check_tree_state_unfold:
  "check_tree_state str_time =
     py_bind (execute tree_state_query) (\<lambda>_.
     py_bind fetchone (\<lambda>tree_state.
     case tree_state of
       Some (v # vs) \<Rightarrow>
         py_bind (unpack3 (v # vs)) (\<lambda>(total_nullifiers, next_index, updated_at).
         print (tree_state_line str_time total_nullifiers next_index updated_at))
     | _ \<Rightarrow> print no_tree_state))"
  unfolding check_tree_state_def check_tree_state_on_def print_def
  by (rule refl)

lemma check_batches_unfold:
  "check_batches str_time =
     py_bind (execute recent_batches_query) (\<lambda>_.
     py_bind fetchall (\<lambda>recent_batches.
     py_bind (print batches_header) (\<lambda>_.
     print_batches str_time recent_batches)))"
  unfolding check_batches_def check_batches_on_def print_def print_batches_def
  by (rule refl)

lemma try_body_unfold:
  "try_body str_time w url =
     py_bind (connect w url) (\<lambda>_.
     py_bind new_cursor (\<lambda>_.
     py_bind (print banner) (\<lambda>_.
     py_bind (check_nullifiers str_time) (\<lambda>_.
     py_bind (check_commits str_time) (\<lambda>_.
     py_bind (check_tree_state str_time) (\<lambda>_.
     py_bind (check_batches str_time) (\<lambda>_.
     py_bind close_cursor (\<lambda>_.
     close_connection))))))))"
  unfolding try_body_def try_body_on_def print_def check_nullifiers_def check_commits_def check_tree_state_def check_batches_def
  by (rule refl)

lemma except_handler_unfold:
  "except_handler url e =
     py_bind (print (error_line e)) (\<lambda>_. print (hint_line url))"
  unfolding except_handler_def except_handler_on_def print_def
  by (rule refl)

lemma main_unfold:
  "main str_time environ w =
     (let url = database_url environ
      in py_try (try_body str_time w url) (except_handler url) initial)"
  unfolding main_def main_on_def try_body_def except_handler_def
  by (rule refl)

lemma body_outcome_unfold:
  "body_outcome str_time environ w = try_body str_time w (database_url environ) initial"
  unfolding body_outcome_def body_outcome_on_def try_body_def
  by (rule refl)

subsection \<open>The statements are the source's strings\<close>

lemma str_nat_3: "str_nat 3 = ''3''"
  by (simp add: str_nat.simps digit_def)

lemma sql_text_count_nullifiers:
  "sql_text count_nullifiers_query = ''SELECT COUNT(*) FROM nullifiers WHERE is_active = true''"
  by (simp add: count_nullifiers_query_def active_only_def)

lemma sql_text_recent_nullifiers:
  "sql_text recent_nullifiers_query =
   ''SELECT value, tree_index, created_at FROM nullifiers WHERE is_active = true ORDER BY created_at DESC LIMIT 3''"
  by (simp add: recent_nullifiers_query_def active_only_def str_nat_3)

lemma sql_text_count_commits:
  "sql_text count_commits_query = ''SELECT COUNT(*) FROM ads_state_commits''"
  by (simp add: count_commits_query_def)

lemma sql_text_recent_commits:
  "sql_text recent_commits_query =
   ''SELECT batch_id, created_at FROM ads_state_commits ORDER BY created_at DESC LIMIT 3''"
  by (simp add: recent_commits_query_def str_nat_3)

lemma sql_text_tree_state:
  "sql_text tree_state_query =
   ''SELECT total_nullifiers, next_available_index, updated_at FROM tree_state WHERE tree_id = ''
   @ [CHR 0x27] @ ''default'' @ [CHR 0x27]"
  by (simp add: tree_state_query_def default_tree_def)

lemma sql_text_recent_batches:
  "sql_text recent_batches_query =
   ''SELECT id, transaction_count, proof_status, created_at FROM proof_batches ORDER BY created_at DESC LIMIT 3''"
  by (simp add: recent_batches_query_def str_nat_3)

lemmas query_defs = count_nullifiers_query_def recent_nullifiers_query_def count_commits_query_def
  recent_commits_query_def tree_state_query_def recent_batches_query_def active_only_def
  default_tree_def

lemma table_of_queries [simp]:
  "table_of count_nullifiers_query = ''nullifiers''"
  "table_of recent_nullifiers_query = ''nullifiers''"
  "table_of count_commits_query = ''ads_state_commits''"
  "table_of recent_commits_query = ''ads_state_commits''"
  "table_of tree_state_query = ''tree_state''"
  "table_of recent_batches_query = ''proof_batches''"
  by (simp_all add: count_nullifiers_query_def recent_nullifiers_query_def count_commits_query_def
      recent_commits_query_def tree_state_query_def recent_batches_query_def)

lemma read_only_queries [simp]:
  "read_only count_nullifiers_query" "read_only recent_nullifiers_query"
  "read_only count_commits_query" "read_only recent_commits_query"
  "read_only tree_state_query" "read_only recent_batches_query"
  by (simp_all add: query_defs)

lemma queries_distinct:
  "recent_nullifiers_query \<noteq> count_nullifiers_query"
  "recent_commits_query \<noteq> count_commits_query"
  by (simp_all add: count_nullifiers_query_def recent_nullifiers_query_def count_commits_query_def
      recent_commits_query_def)

subsection \<open>The engine\<close>

lemma read_only_tables:
  "read_only q \<Longrightarrow> sql_exec q db = Inr (res, db') \<Longrightarrow> db' = db"
  by (cases q) (auto split: option.splits)

lemma select_columns_length:
  "t \<in> set (select (Columns cs) w ob n rs) \<Longrightarrow> length t = length cs"
  by (auto simp: select_def limit_def Let_def split: option.splits dest!: in_set_takeD)

lemma select_count:
  "select Count_star w None None rs = [[IntV (int (length (filter (holds w) rs)))]]"
  by (simp add: select_def limit_def)

lemma count_zero:
  assumes "sql_exec (Select Count_star t c None None) db = Inr (Some [[IntV 0]], db')"
  shows "\<exists>rs. db t = Some rs \<and> filter (holds c) rs = []"
  using assms by (auto simp: select_count split: option.splits)

lemma select_limit: "length (select p w ob (Some k) rs) \<le> k"
  by (simp add: select_def limit_def Let_def split: projection.splits)

lemma select_newest_first:
  assumes "cs \<noteq> []" and "last cs = c"
  shows "newest_first (select (Columns cs) w (Some c) n rs)"
proof -
  let ?key = "\<lambda>r. sql_key (cell r c)"
  let ?chosen = "filter (holds w) rs"
  have "sorted (map ?key (sort_key ?key ?chosen))"
    by (rule sorted_sort_key)
  then have "sorted_wrt (\<lambda>a b. ?key a \<le> ?key b) (sort_key ?key ?chosen)"
    by (simp add: sorted_map)
  then have "sorted_wrt (\<lambda>a b. ?key b \<le> ?key a) (rev (sort_key ?key ?chosen))"
    by (simp add: sorted_wrt_rev)
  then have "sorted_wrt (\<lambda>a b. sql_le (created_at b) (created_at a))
      (map (\<lambda>r. map (cell r) cs) (rev (sort_key ?key ?chosen)))"
    using assms by (simp add: sorted_wrt_map created_at_def sql_le_def last_map)
  then show ?thesis
    by (cases n) (simp_all add: newest_first_def select_def limit_def order_desc_def
        sorted_wrt_take)
qed

subsection \<open>Reading a log\<close>

lemma log_simps [simp]:
  "printed [] = []" "printed (e # evs) = (case e of Print l \<Rightarrow> [l] | _ \<Rightarrow> []) @ printed evs"
  "printed (xs @ ys) = printed xs @ printed ys"
  "statements [] = []"
  "statements (e # evs) = (case e of Execute q \<Rightarrow> [q] | _ \<Rightarrow> []) @ statements evs"
  "statements (xs @ ys) = statements xs @ statements ys"
  "connections [] = []"
  "connections (e # evs) = (case e of Connect d \<Rightarrow> [d] | _ \<Rightarrow> []) @ connections evs"
  "connections (xs @ ys) = connections xs @ connections ys"
  "fetched [] = []"
  "fetched (e # evs) = (case e of Fetchall ts \<Rightarrow> [ts] | _ \<Rightarrow> []) @ fetched evs"
  "fetched (xs @ ys) = fetched xs @ fetched ys"
  by (simp_all add: printed_def statements_def connections_def fetched_def)

lemma log_map_Print [simp]:
  "statements (map (\<lambda>t. Print (g t)) ts) = []"
  "connections (map (\<lambda>t. Print (g t)) ts) = []"
  "fetched (map (\<lambda>t. Print (g t)) ts) = []"
  "concat (map stage_of (map (\<lambda>t. Print (g t)) ts)) = []"
  by (induction ts) simp_all

lemma quiet_stages:
  "connections evs = [] \<Longrightarrow> Close_cursor \<notin> set evs \<Longrightarrow> Close_connection \<notin> set evs \<Longrightarrow>
   concat (map stage_of evs) = map (\<lambda>q. Querying (table_of q)) (statements evs)"
proof (induction evs)
  case Nil
  then show ?case by simp
next
  case (Cons e evs)
  then show ?case by (cases e) simp_all
qed

lemma quiet_closes:
  "Close_cursor \<notin> set evs \<Longrightarrow> Close_connection \<notin> set evs \<Longrightarrow>
   filter (\<lambda>e. e = Close_cursor \<or> e = Close_connection) evs = []"
  by (auto simp: filter_empty_conv)

lemma filter_excludes:
  assumes "filter P xs = ys" and "P x" and "x \<notin> set ys"
  shows "x \<notin> set xs"
  using assms by auto

lemma ok_iff: "ok r \<longleftrightarrow> r = Inr ()"
  by (cases r) (simp_all add: ok_def)

lemma hint_line_contains: "sublist url (hint_line url)"
proof -
  have "hint_line url = (bulb @ '' Make sure DATABASE_URL is set correctly: '') @ url"
    by (simp add: hint_line_def)
  then have "suffix url (hint_line url)"
    by (rule suffixI)
  then show ?thesis
    by (rule suffix_imp_sublist)
qed

subsection \<open>Steady actions\<close>

lemma reset_simps [simp]:
  "log (reset s) = []" "server (reset s) = server s" "conn_open (reset s) = conn_open s"
  "cursor (reset s) = cursor s"
  "reset (reset s) = reset s"
  "reset (s\<lparr>log := l\<rparr>) = reset s"
  "reset (s\<lparr>cursor := c\<rparr>) = (reset s)\<lparr>cursor := c\<rparr>"
  by (simp_all add: reset_def)

lemma steadyI:
  assumes "\<And>s. fst (m s) = fst (m (reset s))"
    and "\<And>s. log (snd (m s)) = log s @ log (snd (m (reset s)))"
    and "\<And>s. cursor (snd (m s)) = cursor (snd (m (reset s)))"
    and "\<And>s. server (snd (m s)) = server s"
    and "\<And>s. conn_open (snd (m s)) = conn_open s"
  shows "steady m"
  unfolding steady_def
proof
  fix s
  have "snd (m s) = s\<lparr>log := log s @ log (snd (m (reset s))), cursor := cursor (snd (m (reset s)))\<rparr>"
    by (rule state.equality)
      (use assms(2)[of s] assms(3)[of s] assms(4)[of s] assms(5)[of s] in simp_all)
  with assms(1)[of s] show "m s = (fst (m (reset s)),
      s\<lparr>log := log s @ log (snd (m (reset s))), cursor := cursor (snd (m (reset s)))\<rparr>)"
    by (cases "m s") simp
qed

lemma steadyD:
  assumes "steady m"
  shows "fst (m s) = fst (m (reset s))"
    and "log (snd (m s)) = log s @ log (snd (m (reset s)))"
    and "cursor (snd (m s)) = cursor (snd (m (reset s)))"
    and "server (snd (m s)) = server s"
    and "conn_open (snd (m s)) = conn_open s"
proof -
  have eq: "m s = (fst (m (reset s)),
      s\<lparr>log := log s @ log (snd (m (reset s))), cursor := cursor (snd (m (reset s)))\<rparr>)"
    using assms[unfolded steady_def, rule_format, of s] .
  show "fst (m s) = fst (m (reset s))" by (subst eq) simp
  show "log (snd (m s)) = log s @ log (snd (m (reset s)))" by (subst eq) simp
  show "cursor (snd (m s)) = cursor (snd (m (reset s)))" by (subst eq) simp
  show "server (snd (m s)) = server s" by (subst eq) simp
  show "conn_open (snd (m s)) = conn_open s" by (subst eq) simp
qed

lemma steady_return: "steady (py_return x)"
  by (rule steadyI) (simp_all add: py_return_def)

lemma steady_raise: "steady (py_raise e)"
  by (rule steadyI) (simp_all add: py_raise_def)

lemma steady_print: "steady (print l)"
  by (rule steadyI) (simp_all add: print_unfold record_event_def)

lemma steady_fetchone: "steady fetchone"
  by (rule steadyI) (simp_all add: fetchone_def record_event_def split: option.splits list.splits)

lemma steady_fetchall: "steady fetchall"
  by (rule steadyI) (simp_all add: fetchall_def record_event_def split: option.splits list.splits)

lemma steady_execute: "read_only q \<Longrightarrow> steady (execute q)"
  by (rule steadyI)
    (auto simp: execute_def record_event_def Let_def split: option.splits sum.splits
          dest: read_only_tables)

lemma steady_bind:
  assumes m: "steady m" and f: "\<And>x. steady (f x)"
  shows "steady (py_bind m f)"
proof (rule steadyI)
  fix s
  obtain r p where p: "m (reset s) = (r, p)" by (cases "m (reset s)")
  obtain s1 where s1: "m s = (r, s1)"
    using steadyD(1)[OF m, of s] p by (cases "m s") simp
  have logs1: "log s1 = log s @ log p" and curs1: "cursor s1 = cursor p"
    and srvs1: "server s1 = server s" and opens1: "conn_open s1 = conn_open s"
    using steadyD(2,3,4,5)[OF m, of s] p s1 by simp_all
  have srvp: "server p = server s" and openp: "conn_open p = conn_open s"
    using steadyD(4,5)[OF m, of "reset s"] p by simp_all
  have rr: "reset s1 = reset p"
    by (rule state.equality) (simp_all add: curs1 srvs1 opens1 srvp openp)
  show "fst (py_bind m f s) = fst (py_bind m f (reset s))"
    using steadyD(1)[OF f, of _ s1] steadyD(1)[OF f, of _ p]
    by (cases r) (simp_all add: py_bind_def p s1 rr)
  show "log (snd (py_bind m f s)) = log s @ log (snd (py_bind m f (reset s)))"
    using steadyD(2)[OF f, of _ s1] steadyD(2)[OF f, of _ p]
    by (cases r) (simp_all add: py_bind_def p s1 rr logs1)
  show "cursor (snd (py_bind m f s)) = cursor (snd (py_bind m f (reset s)))"
    using steadyD(3)[OF f, of _ s1] steadyD(3)[OF f, of _ p]
    by (cases r) (simp_all add: py_bind_def p s1 rr curs1)
  show "server (snd (py_bind m f s)) = server s"
    using steadyD(4)[OF f, of _ s1]
    by (cases r) (simp_all add: py_bind_def p s1 srvs1)
  show "conn_open (snd (py_bind m f s)) = conn_open s"
    using steadyD(5)[OF f, of _ s1]
    by (cases r) (simp_all add: py_bind_def p s1 opens1)
qed

lemma steady_unpack2: "steady (unpack2 t)"
  by (cases t rule: unpack2.cases) (simp_all add: steady_return steady_raise)

lemma steady_unpack3: "steady (unpack3 t)"
  by (cases t rule: unpack3.cases) (simp_all add: steady_return steady_raise)

lemma steady_unpack4: "steady (unpack4 t)"
  by (cases t rule: unpack4.cases) (simp_all add: steady_return steady_raise)

lemma steady_subscript0: "steady (subscript0 r)"
  by (cases r rule: subscript0.cases) (simp_all add: steady_return steady_raise)

lemma steady_greater_than_zero: "steady (greater_than_zero v)"
  by (cases v) (simp_all add: steady_return steady_raise)

lemmas steady_intros = steady_bind steady_return steady_raise steady_print steady_fetchone
  steady_fetchall steady_execute steady_unpack2 steady_unpack3 steady_unpack4
  steady_subscript0 steady_greater_than_zero

lemma steady_print_nullifiers: "steady (print_nullifiers f ts)"
  by (induction ts) (auto intro!: steady_intros)

lemma steady_print_commits: "steady (print_commits f ts)"
  by (induction ts) (auto intro!: steady_intros)

lemma steady_print_batches: "steady (print_batches f ts)"
  by (induction ts) (auto intro!: steady_intros)

lemma steady_check_nullifiers: "steady (check_nullifiers f)"
  unfolding check_nullifiers_unfold
  by (auto intro!: steady_intros steady_print_nullifiers
      simp: count_nullifiers_query_def recent_nullifiers_query_def)

lemma steady_check_commits: "steady (check_commits f)"
  unfolding check_commits_unfold
  by (auto intro!: steady_intros steady_print_commits
      simp: count_commits_query_def recent_commits_query_def)

lemma steady_check_tree_state: "steady (check_tree_state f)"
  unfolding check_tree_state_unfold
  by (auto intro!: steady_intros simp: tree_state_query_def split: option.splits list.splits)

lemma steady_check_batches: "steady (check_batches f)"
  unfolding check_batches_unfold
  by (auto intro!: steady_intros steady_print_batches simp: recent_batches_query_def)

subsection \<open>What each part does on a session\<close>

lemmas prims = py_bind_def py_return_def py_raise_def print_unfold
  execute_def fetchone_def fetchall_def record_event_def

lemma print_nullifiers_run:
  "\<forall>t\<in>set ts. length t = 3 \<Longrightarrow>
   print_nullifiers f ts s =
     (Inr (), s\<lparr>log := log s @ map (\<lambda>t. Print (nullifier_line f (t ! 0) (t ! 1) (t ! 2))) ts\<rparr>)"
proof (induction ts arbitrary: s)
  case Nil
  then show ?case by (simp add: py_return_def)
next
  case (Cons t ts)
  from Cons.prems have "length t = 3" by simp
  then obtain a b c where t: "t = [a, b, c]"
    by (auto simp: numeral_3_eq_3 length_Suc_conv)
  from Cons show ?case
    by (simp add: t prims)
qed

lemma print_commits_run:
  "\<forall>t\<in>set ts. length t = 2 \<Longrightarrow>
   print_commits f ts s =
     (Inr (), s\<lparr>log := log s @ map (\<lambda>t. Print (commit_line f (t ! 0) (t ! 1))) ts\<rparr>)"
proof (induction ts arbitrary: s)
  case Nil
  then show ?case by (simp add: py_return_def)
next
  case (Cons t ts)
  from Cons.prems have "length t = 2" by simp
  then obtain a b where t: "t = [a, b]"
    by (auto simp: numeral_2_eq_2 length_Suc_conv)
  from Cons show ?case
    by (simp add: t prims)
qed

lemma print_batches_run:
  "\<forall>t\<in>set ts. length t = 4 \<Longrightarrow>
   print_batches f ts s =
     (Inr (), s\<lparr>log := log s
        @ map (\<lambda>t. Print (batch_line f (t ! 0) (t ! 1) (t ! 2) (t ! 3))) ts\<rparr>)"
proof (induction ts arbitrary: s)
  case Nil
  then show ?case by (simp add: py_return_def)
next
  case (Cons t ts)
  from Cons.prems have "length t = 4" by simp
  then obtain a b c d where t: "t = [a, b, c, d]"
    by (auto simp: numeral_eq_Suc length_Suc_conv)
  from Cons show ?case
    by (simp add: t prims)
qed

lemma check_nullifiers_probe:
  "(outcome (check_nullifiers f) sess, events (check_nullifiers f) sess) =
     (case refuses sess count_nullifiers_query of
        Some e \<Rightarrow> (Inl e, [Execute count_nullifiers_query])
      | None \<Rightarrow>
         (case tables sess ''nullifiers'' of
            None \<Rightarrow> (Inl (undefined_table ''nullifiers''), [Execute count_nullifiers_query])
          | Some rs \<Rightarrow>
             (let n = int (length (filter (holds active_only) rs));
                  counted = [Execute count_nullifiers_query, Fetchone (Some [IntV n]),
                             Print (nullifier_count_line f (IntV n))]
              in if n > 0 then
                   (case refuses sess recent_nullifiers_query of
                      Some e \<Rightarrow> (Inl e, counted @ [Execute recent_nullifiers_query])
                    | None \<Rightarrow>
                       (let rows = select (Columns [''value'', ''tree_index'', ''created_at''])
                                     active_only (Some ''created_at'') (Some 3) rs
                        in (Inr (), counted @ [Execute recent_nullifiers_query, Fetchall rows,
                                     Print nullifiers_header]
                                 @ map (\<lambda>t. Print (nullifier_line f (t ! 0) (t ! 1) (t ! 2))) rows)))
                 else (Inr (), counted))))"
  by (simp add: outcome_def events_def probe_def check_nullifiers_unfold prims
      count_nullifiers_query_def recent_nullifiers_query_def active_only_def select_count Let_def
      print_nullifiers_run select_columns_length
      split: option.splits)

lemma check_commits_probe:
  "(outcome (check_commits f) sess, events (check_commits f) sess) =
     (case refuses sess count_commits_query of
        Some e \<Rightarrow> (Inl e, [Execute count_commits_query])
      | None \<Rightarrow>
         (case tables sess ''ads_state_commits'' of
            None \<Rightarrow> (Inl (undefined_table ''ads_state_commits''), [Execute count_commits_query])
          | Some rs \<Rightarrow>
             (let n = int (length rs);
                  counted = [Execute count_commits_query, Fetchone (Some [IntV n]),
                             Print (commit_count_line f (IntV n))]
              in if n > 0 then
                   (case refuses sess recent_commits_query of
                      Some e \<Rightarrow> (Inl e, counted @ [Execute recent_commits_query])
                    | None \<Rightarrow>
                       (let rows = select (Columns [''batch_id'', ''created_at''])
                                     None (Some ''created_at'') (Some 3) rs
                        in (Inr (), counted @ [Execute recent_commits_query, Fetchall rows,
                                     Print commits_header]
                                 @ map (\<lambda>t. Print (commit_line f (t ! 0) (t ! 1))) rows)))
                 else (Inr (), counted))))"
  by (simp add: outcome_def events_def probe_def check_commits_unfold prims
      count_commits_query_def recent_commits_query_def select_count Let_def
      print_commits_run select_columns_length
      split: option.splits)

lemma check_tree_state_probe:
  "(outcome (check_tree_state f) sess, events (check_tree_state f) sess) =
     (case refuses sess tree_state_query of
        Some e \<Rightarrow> (Inl e, [Execute tree_state_query])
      | None \<Rightarrow>
         (case tables sess ''tree_state'' of
            None \<Rightarrow> (Inl (undefined_table ''tree_state''), [Execute tree_state_query])
          | Some rs \<Rightarrow>
             (case select (Columns [''total_nullifiers'', ''next_available_index'',
                                    ''updated_at'']) default_tree None None rs of
                [] \<Rightarrow> (Inr (), [Execute tree_state_query, Fetchone None, Print no_tree_state])
              | t # ts \<Rightarrow>
                  (Inr (), [Execute tree_state_query, Fetchone (Some t),
                            Print (tree_state_line f (t ! 0) (t ! 1) (t ! 2))]))))"
proof -
  have three: "length t = 3"
    if "select (Columns [''total_nullifiers'', ''next_available_index'', ''updated_at''])
          default_tree None None rs = t # ts" for rs t ts
    using select_columns_length[of t "[''total_nullifiers'', ''next_available_index'', ''updated_at'']"
        default_tree None None rs] that by simp
  show ?thesis
    by (auto simp: outcome_def events_def probe_def check_tree_state_unfold prims
      tree_state_query_def Let_def
      split: option.splits list.splits dest!: three
      simp: numeral_3_eq_3 length_Suc_conv)
qed

lemma check_batches_probe:
  "(outcome (check_batches f) sess, events (check_batches f) sess) =
     (case refuses sess recent_batches_query of
        Some e \<Rightarrow> (Inl e, [Execute recent_batches_query])
      | None \<Rightarrow>
         (case tables sess ''proof_batches'' of
            None \<Rightarrow> (Inl (undefined_table ''proof_batches''), [Execute recent_batches_query])
          | Some rs \<Rightarrow>
             (let rows = select (Columns [''id'', ''transaction_count'', ''proof_status'',
                                          ''created_at''])
                           None (Some ''created_at'') (Some 3) rs
              in (Inr (), [Execute recent_batches_query, Fetchall rows, Print batches_header]
                     @ map (\<lambda>t. Print (batch_line f (t ! 0) (t ! 1) (t ! 2) (t ! 3))) rows))))"
  by (simp add: outcome_def events_def probe_def check_batches_unfold prims
      recent_batches_query_def Let_def
      print_batches_run select_columns_length
      split: option.splits)

subsection \<open>Parts in sequence\<close>

lemma execute_cursor:
  "conn_open s \<Longrightarrow> server s \<noteq> None \<Longrightarrow> execute q (s\<lparr>cursor := c\<rparr>) = execute q s"
  by (auto simp: execute_def record_event_def Let_def split: option.splits sum.splits)

lemma bind_execute_cursor:
  "conn_open s \<Longrightarrow> server s \<noteq> None \<Longrightarrow>
   py_bind (execute q) g (s\<lparr>cursor := c\<rparr>) = py_bind (execute q) g s"
  by (simp add: py_bind_def execute_cursor)

lemma part_check_nullifiers: "part (check_nullifiers f)"
  unfolding part_def
proof (intro conjI allI impI)
  show "steady (check_nullifiers f)" by (rule steady_check_nullifiers)
  show "check_nullifiers f (s\<lparr>cursor := c\<rparr>) = check_nullifiers f s"
    if "conn_open s" and "server s \<noteq> None" for s c
    unfolding check_nullifiers_unfold using that by (rule bind_execute_cursor)
qed

lemma part_check_commits: "part (check_commits f)"
  unfolding part_def
proof (intro conjI allI impI)
  show "steady (check_commits f)" by (rule steady_check_commits)
  show "check_commits f (s\<lparr>cursor := c\<rparr>) = check_commits f s"
    if "conn_open s" and "server s \<noteq> None" for s c
    unfolding check_commits_unfold using that by (rule bind_execute_cursor)
qed

lemma part_check_tree_state: "part (check_tree_state f)"
  unfolding part_def
proof (intro conjI allI impI)
  show "steady (check_tree_state f)" by (rule steady_check_tree_state)
  show "check_tree_state f (s\<lparr>cursor := c\<rparr>) = check_tree_state f s"
    if "conn_open s" and "server s \<noteq> None" for s c
    unfolding check_tree_state_unfold using that by (rule bind_execute_cursor)
qed

lemma part_check_batches: "part (check_batches f)"
  unfolding part_def
proof (intro conjI allI impI)
  show "steady (check_batches f)" by (rule steady_check_batches)
  show "check_batches f (s\<lparr>cursor := c\<rparr>) = check_batches f s"
    if "conn_open s" and "server s \<noteq> None" for s c
    unfolding check_batches_unfold using that by (rule bind_execute_cursor)
qed

lemma part_run:
  assumes "part m" and "server s = Some sess" and "conn_open s"
  obtains s' where "m s = (outcome m sess, s')" and "log s' = log s @ events m sess"
    and "server s' = Some sess" and "conn_open s'"
proof -
  from assms(1) have st: "steady m"
    and cur: "\<And>s c. conn_open s \<Longrightarrow> server s \<noteq> None \<Longrightarrow> m (s\<lparr>cursor := c\<rparr>) = m s"
    by (simp_all add: part_def)
  have "reset s = (probe sess)\<lparr>cursor := cursor s\<rparr>"
    by (rule state.equality) (simp_all add: probe_def assms(2,3))
  moreover have "m ((probe sess)\<lparr>cursor := cursor s\<rparr>) = m (probe sess)"
    by (rule cur) (simp_all add: probe_def)
  ultimately have same: "m (reset s) = m (probe sess)"
    by simp
  show thesis
  proof (rule that[of "snd (m s)"])
    show "m s = (outcome m sess, snd (m s))"
      using steadyD(1)[OF st, of s] by (simp add: same outcome_def prod_eq_iff)
    show "log (snd (m s)) = log s @ events m sess"
      using steadyD(2)[OF st, of s] by (simp add: same events_def)
    show "server (snd (m s)) = Some sess"
      using steadyD(4)[OF st, of s] by (simp add: assms(2))
    show "conn_open (snd (m s))"
      using steadyD(5)[OF st, of s] by (simp add: assms(3))
  qed
qed

lemma try_body_refused:
  "w url = Inl e \<Longrightarrow>
   try_body f w url initial =
     (Inl e, \<lparr>log = [Connect url], server = None, conn_open = False, cursor = None\<rparr>)"
  by (simp add: try_body_unfold py_bind_def connect_def record_event_def initial_def)

lemma try_body_connected:
  assumes "w url = Inr sess"
  shows "fst (try_body f w url initial) =
     (if \<not> ok (outcome (check_nullifiers f) sess) then outcome (check_nullifiers f) sess
      else if \<not> ok (outcome (check_commits f) sess) then outcome (check_commits f) sess
      else if \<not> ok (outcome (check_tree_state f) sess) then outcome (check_tree_state f) sess
      else outcome (check_batches f) sess)"
    and "log (snd (try_body f w url initial)) =
     Connect url # Print banner # events (check_nullifiers f) sess @
     (if ok (outcome (check_nullifiers f) sess) then events (check_commits f) sess @
       (if ok (outcome (check_commits f) sess) then events (check_tree_state f) sess @
         (if ok (outcome (check_tree_state f) sess) then events (check_batches f) sess @
           (if ok (outcome (check_batches f) sess) then [Close_cursor, Close_connection]
            else [])
          else [])
        else [])
      else [])"
    and "server (snd (try_body f w url initial)) = Some sess"
    and "conn_open (snd (try_body f w url initial)) =
      (\<not> (ok (outcome (check_nullifiers f) sess) \<and> ok (outcome (check_commits f) sess)
          \<and> ok (outcome (check_tree_state f) sess) \<and> ok (outcome (check_batches f) sess)))"
proof -
  let ?s0 = "\<lparr>log = [Connect url, Print banner], server = Some sess, conn_open = True,
              cursor = None\<rparr>"
  obtain s1 where s1: "check_nullifiers f ?s0 = (outcome (check_nullifiers f) sess, s1)"
      "log s1 = log ?s0 @ events (check_nullifiers f) sess" "server s1 = Some sess" "conn_open s1"
    using part_run[OF part_check_nullifiers, of ?s0 sess f] by auto
  obtain s2 where s2: "check_commits f s1 = (outcome (check_commits f) sess, s2)"
      "log s2 = log s1 @ events (check_commits f) sess" "server s2 = Some sess" "conn_open s2"
    using part_run[OF part_check_commits s1(3,4), of f] by auto
  obtain s3 where s3: "check_tree_state f s2 = (outcome (check_tree_state f) sess, s3)"
      "log s3 = log s2 @ events (check_tree_state f) sess" "server s3 = Some sess" "conn_open s3"
    using part_run[OF part_check_tree_state s2(3,4), of f] by auto
  obtain s4 where s4: "check_batches f s3 = (outcome (check_batches f) sess, s4)"
      "log s4 = log s3 @ events (check_batches f) sess" "server s4 = Some sess" "conn_open s4"
    using part_run[OF part_check_batches s3(3,4), of f] by auto
  have body: "try_body f w url initial =
      (case outcome (check_nullifiers f) sess of
         Inl e \<Rightarrow> (Inl e, s1)
       | Inr u \<Rightarrow>
          (case outcome (check_commits f) sess of
             Inl e \<Rightarrow> (Inl e, s2)
           | Inr u \<Rightarrow>
              (case outcome (check_tree_state f) sess of
                 Inl e \<Rightarrow> (Inl e, s3)
               | Inr u \<Rightarrow>
                  (case outcome (check_batches f) sess of
                     Inl e \<Rightarrow> (Inl e, s4)
                   | Inr u \<Rightarrow>
                      (Inr (), s4\<lparr>log := log s4 @ [Close_cursor, Close_connection],
                                  cursor := None, conn_open := False\<rparr>)))))"
    by (simp add: try_body_unfold py_bind_def connect_def new_cursor_def print_unfold record_event_def
        initial_def assms s1(1) s2(1) s3(1) s4(1) close_cursor_def close_connection_def
        split: sum.splits)
  show "fst (try_body f w url initial) =
     (if \<not> ok (outcome (check_nullifiers f) sess) then outcome (check_nullifiers f) sess
      else if \<not> ok (outcome (check_commits f) sess) then outcome (check_commits f) sess
      else if \<not> ok (outcome (check_tree_state f) sess) then outcome (check_tree_state f) sess
      else outcome (check_batches f) sess)"
    by (simp add: body ok_def split: sum.splits)
  show "log (snd (try_body f w url initial)) =
     Connect url # Print banner # events (check_nullifiers f) sess @
     (if ok (outcome (check_nullifiers f) sess) then events (check_commits f) sess @
       (if ok (outcome (check_commits f) sess) then events (check_tree_state f) sess @
         (if ok (outcome (check_tree_state f) sess) then events (check_batches f) sess @
           (if ok (outcome (check_batches f) sess) then [Close_cursor, Close_connection]
            else [])
          else [])
        else [])
      else [])"
    by (simp add: body ok_def s1(2) s2(2) s3(2) s4(2) split: sum.splits)
  show "server (snd (try_body f w url initial)) = Some sess"
    by (simp add: body s1(3) s2(3) s3(3) s4(3) split: sum.splits)
  show "conn_open (snd (try_body f w url initial)) =
      (\<not> (ok (outcome (check_nullifiers f) sess) \<and> ok (outcome (check_commits f) sess)
          \<and> ok (outcome (check_tree_state f) sess) \<and> ok (outcome (check_batches f) sess)))"
    by (simp add: body ok_def s1(4) s2(4) s3(4) s4(4) split: sum.splits)
qed

lemma body_outcome_refused:
  "w (database_url environ) = Inl e \<Longrightarrow>
   body_outcome f environ w =
     (Inl e, \<lparr>log = [Connect (database_url environ)], server = None, conn_open = False,
              cursor = None\<rparr>)"
  by (simp add: body_outcome_unfold try_body_refused)

lemma main_outcome:
  "main f environ w =
     (case body_outcome f environ w of
        (Inl e, s) \<Rightarrow>
          (Inr (), s\<lparr>log := log s @ [Print (error_line e), Print (hint_line (database_url environ))]\<rparr>)
      | (Inr u, s) \<Rightarrow> (Inr u, s))"
  by (simp add: main_unfold body_outcome_unfold py_try_def except_handler_unfold py_bind_def print_unfold
      record_event_def Let_def split: prod.splits sum.splits)

lemma main_log:
  "log (snd (main f environ w)) =
     log (snd (body_outcome f environ w)) @
     (case fst (body_outcome f environ w) of
        Inl e \<Rightarrow> [Print (error_line e), Print (hint_line (database_url environ))]
      | Inr u \<Rightarrow> [])"
  by (simp add: main_outcome split: prod.splits sum.splits)

lemma main_server:
  "server (snd (main f environ w)) = server (snd (body_outcome f environ w))"
  by (simp add: main_outcome split: prod.splits sum.splits)

lemma main_conn_open:
  "conn_open (snd (main f environ w)) = conn_open (snd (body_outcome f environ w))"
  by (simp add: main_outcome split: prod.splits sum.splits)

lemma main_server_connected:
  "w (database_url environ) = Inr sess \<Longrightarrow> server (snd (main f environ w)) = Some sess"
  by (simp add: main_server body_outcome_unfold
      try_body_connected[where w = w and url = "database_url environ" and sess = sess])

subsection \<open>The script on any standard output\<close>




subsection \<open>Facts about the parts\<close>

lemma nullifiers_statements:
  "statements (events (check_nullifiers f) sess) = [count_nullifiers_query]
   \<or> statements (events (check_nullifiers f) sess) = [count_nullifiers_query, recent_nullifiers_query]"
  using check_nullifiers_probe[of f sess]
  by (auto simp: Let_def split: option.splits if_splits)

lemma commits_statements:
  "statements (events (check_commits f) sess) = [count_commits_query]
   \<or> statements (events (check_commits f) sess) = [count_commits_query, recent_commits_query]"
  using check_commits_probe[of f sess]
  by (auto simp: Let_def split: option.splits if_splits)

lemma tree_state_statements:
  "statements (events (check_tree_state f) sess) = [tree_state_query]"
  using check_tree_state_probe[of f sess]
  by (auto simp: Let_def split: option.splits if_splits list.splits)

lemma batches_statements:
  "statements (events (check_batches f) sess) = [recent_batches_query]"
  using check_batches_probe[of f sess]
  by (auto simp: Let_def split: option.splits if_splits)

lemma nullifiers_zero:
  assumes "sql_exec count_nullifiers_query (tables sess) = Inr (Some [[IntV 0]], db')"
  shows "statements (events (check_nullifiers f) sess) = [count_nullifiers_query]"
proof -
  obtain rs where "tables sess ''nullifiers'' = Some rs" "filter (holds active_only) rs = []"
    using count_zero[OF assms[unfolded count_nullifiers_query_def]] by blast
  then show ?thesis
    using check_nullifiers_probe[of f sess]
    by (auto simp: Let_def split: option.splits if_splits)
qed

lemma commits_zero:
  assumes "sql_exec count_commits_query (tables sess) = Inr (Some [[IntV 0]], db')"
  shows "statements (events (check_commits f) sess) = [count_commits_query]"
proof -
  obtain rs where "tables sess ''ads_state_commits'' = Some rs" "filter (holds None) rs = []"
    using count_zero[OF assms[unfolded count_commits_query_def]] by blast
  then show ?thesis
    using check_commits_probe[of f sess]
    by (auto simp: Let_def split: option.splits if_splits)
qed

lemma nullifiers_quiet:
  "connections (events (check_nullifiers f) sess) = []
   \<and> Close_cursor \<notin> set (events (check_nullifiers f) sess)
   \<and> Close_connection \<notin> set (events (check_nullifiers f) sess)
   \<and> Fetchone None \<notin> set (events (check_nullifiers f) sess)"
  using check_nullifiers_probe[of f sess]
  by (auto simp: Let_def split: option.splits if_splits)

lemma commits_quiet:
  "connections (events (check_commits f) sess) = []
   \<and> Close_cursor \<notin> set (events (check_commits f) sess)
   \<and> Close_connection \<notin> set (events (check_commits f) sess)
   \<and> Fetchone None \<notin> set (events (check_commits f) sess)"
  using check_commits_probe[of f sess]
  by (auto simp: Let_def split: option.splits if_splits)

lemma tree_state_quiet:
  "connections (events (check_tree_state f) sess) = []
   \<and> Close_cursor \<notin> set (events (check_tree_state f) sess)
   \<and> Close_connection \<notin> set (events (check_tree_state f) sess)"
  using check_tree_state_probe[of f sess]
  by (auto simp: Let_def split: option.splits if_splits list.splits)

lemma batches_quiet:
  "connections (events (check_batches f) sess) = []
   \<and> Close_cursor \<notin> set (events (check_batches f) sess)
   \<and> Close_connection \<notin> set (events (check_batches f) sess)
   \<and> Fetchone None \<notin> set (events (check_batches f) sess)"
  using check_batches_probe[of f sess]
  by (auto simp: Let_def split: option.splits if_splits)

lemma nullifiers_fetched:
  "rows \<in> set (fetched (events (check_nullifiers f) sess)) \<Longrightarrow>
   length rows \<le> 3 \<and> newest_first rows"
  using check_nullifiers_probe[of f sess]
  by (auto simp: Let_def select_limit select_newest_first split: option.splits if_splits)

lemma commits_fetched:
  "rows \<in> set (fetched (events (check_commits f) sess)) \<Longrightarrow>
   length rows \<le> 3 \<and> newest_first rows"
  using check_commits_probe[of f sess]
  by (auto simp: Let_def select_limit select_newest_first split: option.splits if_splits)

lemma tree_state_fetched: "fetched (events (check_tree_state f) sess) = []"
  using check_tree_state_probe[of f sess]
  by (auto simp: Let_def split: option.splits if_splits list.splits)

lemma batches_fetched:
  "rows \<in> set (fetched (events (check_batches f) sess)) \<Longrightarrow>
   length rows \<le> 3 \<and> newest_first rows"
  using check_batches_probe[of f sess]
  by (auto simp: Let_def select_limit select_newest_first split: option.splits if_splits)

lemma nullifiers_stages:
  "concat (map stage_of (events (check_nullifiers f) sess)) = [Querying ''nullifiers'']
   \<or> concat (map stage_of (events (check_nullifiers f) sess))
       = [Querying ''nullifiers'', Querying ''nullifiers'']"
  using nullifiers_statements[of f sess] nullifiers_quiet[of f sess]
  by (auto simp: quiet_stages)

lemma commits_stages:
  "concat (map stage_of (events (check_commits f) sess)) = [Querying ''ads_state_commits'']
   \<or> concat (map stage_of (events (check_commits f) sess))
       = [Querying ''ads_state_commits'', Querying ''ads_state_commits'']"
  using commits_statements[of f sess] commits_quiet[of f sess]
  by (auto simp: quiet_stages)

lemma tree_state_stages:
  "concat (map stage_of (events (check_tree_state f) sess)) = [Querying ''tree_state'']"
  using tree_state_statements[of f sess] tree_state_quiet[of f sess]
  by (simp add: quiet_stages)

lemma batches_stages:
  "concat (map stage_of (events (check_batches f) sess)) = [Querying ''proof_batches'']"
  using batches_statements[of f sess] batches_quiet[of f sess]
  by (simp add: quiet_stages)




lemma batches_empty:
  assumes "refuses sess recent_batches_query = None" and "tables sess ''proof_batches'' = Some []"
  shows "events (check_batches f) sess =
           [Execute recent_batches_query, Fetchall [], Print batches_header]"
    and "outcome (check_batches f) sess = Inr ()"
  using assms check_batches_probe[of f sess]
  by (simp_all add: Let_def select_def limit_def order_desc_def)

lemma main_issued:
  assumes "w (database_url environ) = Inr sess"
  shows "issued (snd (main f environ w)) =
     statements (events (check_nullifiers f) sess) @
     (if ok (outcome (check_nullifiers f) sess) then statements (events (check_commits f) sess) @
       (if ok (outcome (check_commits f) sess) then tree_state_query #
         (if ok (outcome (check_tree_state f) sess) then [recent_batches_query] else [])
        else [])
      else [])"
  by (simp add: issued_def main_log body_outcome_unfold try_body_connected[where w = w and url = "database_url environ" and sess = sess, OF assms]
      tree_state_statements batches_statements split: sum.splits)

lemma main_connections:
  "connections (log (snd (main f environ w))) = [database_url environ]"
proof (cases "w (database_url environ)")
  case (Inl e)
  then show ?thesis
    by (simp add: main_log body_outcome_refused)
next
  case (Inr sess)
  note tb = try_body_connected[where w = w and url = "database_url environ" and sess = sess, OF Inr]
  show ?thesis
    by (simp add: main_log body_outcome_unfold tb nullifiers_quiet commits_quiet tree_state_quiet
        batches_quiet split: sum.splits)
qed

subsection \<open>The example worlds, evaluated\<close>

lemmas example_defs = no_refusal_def empty_db_def empty_session_def empty_world_def
  nullifier_row_def commit_row_def batch_row_def sample_db_def sample_session_def sample_world_def

lemmas eval_defs = example_defs query_defs select_def limit_def order_desc_def cell_def Let_def
  dropping_def dropped_session_def dropped_world_def

lemma sample_nullifiers:
  "outcome (check_nullifiers f) sample_session = Inr ()"
  "events (check_nullifiers f) sample_session =
     [Execute count_nullifiers_query, Fetchone (Some [IntV 5]),
      Print (nullifier_count_line f (IntV 5)),
      Execute recent_nullifiers_query,
      Fetchall [[TextV ''n3'', IntV 3, TimeV 500], [TextV ''n4'', IntV 4, TimeV 400],
                [TextV ''n1'', IntV 1, TimeV 300]],
      Print nullifiers_header,
      Print (nullifier_line f (TextV ''n3'') (IntV 3) (TimeV 500)),
      Print (nullifier_line f (TextV ''n4'') (IntV 4) (TimeV 400)),
      Print (nullifier_line f (TextV ''n1'') (IntV 1) (TimeV 300))]"
  using check_nullifiers_probe[of f sample_session]
  by (simp_all add: eval_defs)

lemma sample_commits:
  "outcome (check_commits f) sample_session = Inr ()"
  "events (check_commits f) sample_session =
     [Execute count_commits_query, Fetchone (Some [IntV 2]),
      Print (commit_count_line f (IntV 2)),
      Execute recent_commits_query,
      Fetchall [[IntV 2, TimeV 450], [IntV 1, TimeV 150]],
      Print commits_header,
      Print (commit_line f (IntV 2) (TimeV 450)),
      Print (commit_line f (IntV 1) (TimeV 150))]"
  using check_commits_probe[of f sample_session]
  by (simp_all add: eval_defs)

lemma sample_tree_state:
  "outcome (check_tree_state f) sample_session = Inr ()"
  "events (check_tree_state f) sample_session =
     [Execute tree_state_query, Fetchone (Some [IntV 5, IntV 5, TimeV 500]),
      Print (tree_state_line f (IntV 5) (IntV 5) (TimeV 500))]"
  using check_tree_state_probe[of f sample_session]
  by (simp_all add: eval_defs)

lemma sample_batches:
  "outcome (check_batches f) sample_session = Inr ()"
  "events (check_batches f) sample_session =
     [Execute recent_batches_query,
      Fetchall [[IntV 3, IntV 1, TextV ''pending'', TimeV 550],
                [IntV 2, IntV 2, TextV ''proven'', TimeV 450],
                [IntV 4, IntV 7, TextV ''pending'', TimeV 350]],
      Print batches_header,
      Print (batch_line f (IntV 3) (IntV 1) (TextV ''pending'') (TimeV 550)),
      Print (batch_line f (IntV 2) (IntV 2) (TextV ''proven'') (TimeV 450)),
      Print (batch_line f (IntV 4) (IntV 7) (TextV ''pending'') (TimeV 350))]"
  using check_batches_probe[of f sample_session]
  by (simp_all add: eval_defs)

lemma empty_nullifiers:
  "outcome (check_nullifiers f) empty_session = Inr ()"
  "events (check_nullifiers f) empty_session =
     [Execute count_nullifiers_query, Fetchone (Some [IntV 0]),
      Print (nullifier_count_line f (IntV 0))]"
  using check_nullifiers_probe[of f empty_session]
  by (simp_all add: eval_defs)

lemma empty_commits:
  "outcome (check_commits f) empty_session = Inr ()"
  "events (check_commits f) empty_session =
     [Execute count_commits_query, Fetchone (Some [IntV 0]),
      Print (commit_count_line f (IntV 0))]"
  using check_commits_probe[of f empty_session]
  by (simp_all add: eval_defs)

lemma empty_tree_state:
  "outcome (check_tree_state f) empty_session = Inr ()"
  "events (check_tree_state f) empty_session =
     [Execute tree_state_query, Fetchone None, Print no_tree_state]"
  using check_tree_state_probe[of f empty_session]
  by (simp_all add: eval_defs)

lemma empty_batches:
  "outcome (check_batches f) empty_session = Inr ()"
  "events (check_batches f) empty_session =
     [Execute recent_batches_query, Fetchall [], Print batches_header]"
  using check_batches_probe[of f empty_session]
  by (simp_all add: eval_defs)

lemma dropped_nullifiers:
  "outcome (check_nullifiers f) dropped_session = Inr ()"
  "events (check_nullifiers f) dropped_session = events (check_nullifiers f) sample_session"
  using check_nullifiers_probe[of f dropped_session] check_nullifiers_probe[of f sample_session]
  by (simp_all add: eval_defs)

lemma dropped_commits:
  "outcome (check_commits f) dropped_session =
     Inl (OperationalError ''server closed the connection unexpectedly'')"
  "events (check_commits f) dropped_session =
     [Execute count_commits_query, Fetchone (Some [IntV 2]),
      Print (commit_count_line f (IntV 2)),
      Execute recent_commits_query]"
  using check_commits_probe[of f dropped_session]
  by (simp_all add: eval_defs)

lemma example_connections:
  "sample_world (database_url environ) = Inr sample_session"
  "empty_world (database_url environ) = Inr empty_session"
  "dropped_world (database_url environ) = Inr dropped_session"
  by (simp_all add: eval_defs)

lemma sample_log:
  "fst (body_outcome f environ sample_world) = Inr ()"
  "log (snd (main f environ sample_world)) =
     Connect (database_url environ) # Print banner #
     events (check_nullifiers f) sample_session @ events (check_commits f) sample_session @
     events (check_tree_state f) sample_session @ events (check_batches f) sample_session @
     [Close_cursor, Close_connection]"
  by (simp_all add: main_log body_outcome_unfold ok_def
      try_body_connected[where w = sample_world and url = "database_url environ"
        and sess = sample_session, OF example_connections(1)]
      sample_nullifiers(1) sample_commits(1) sample_tree_state(1) sample_batches(1))

lemma empty_log:
  "fst (body_outcome f environ empty_world) = Inr ()"
  "log (snd (main f environ empty_world)) =
     [Connect (database_url environ), Print banner,
      Execute count_nullifiers_query, Fetchone (Some [IntV 0]),
      Print (nullifier_count_line f (IntV 0)),
      Execute count_commits_query, Fetchone (Some [IntV 0]),
      Print (commit_count_line f (IntV 0)),
      Execute tree_state_query, Fetchone None, Print no_tree_state,
      Execute recent_batches_query, Fetchall [], Print batches_header,
      Close_cursor, Close_connection]"
  by (simp_all add: main_log body_outcome_unfold ok_def
      try_body_connected[where w = empty_world and url = "database_url environ"
        and sess = empty_session, OF example_connections(2)]
      empty_nullifiers empty_commits empty_tree_state empty_batches)

lemma dropped_log:
  "fst (body_outcome f environ dropped_world) =
     Inl (OperationalError ''server closed the connection unexpectedly'')"
  "log (snd (body_outcome f environ dropped_world)) =
     Connect (database_url environ) # Print banner #
     events (check_nullifiers f) sample_session @
     [Execute count_commits_query, Fetchone (Some [IntV 2]),
      Print (commit_count_line f (IntV 2)),
      Execute recent_commits_query]"
  by (simp_all add: body_outcome_unfold ok_def
      try_body_connected[where w = dropped_world and url = "database_url environ"
        and sess = dropped_session, OF example_connections(3)]
      dropped_nullifiers dropped_commits)

section \<open>The claims\<close>

subsection \<open>A count of zero skips the detail statement\<close>

text \<open>
  Claim C1. On a connection to any session: if the count statement for active
  nullifiers returns 0 on the session's tables, the detail statement for nullifiers is
  never sent and the count statement is the only statement sent about that table. If the
  count statement for state commits returns 0, the detail statement for commits is
  never sent, and the statements sent about that table are the count statement alone
  when the nullifier part raised nothing, and none when it raised (the run then never
  reaches the commits).
\<close>

theorem zero_count_skips_detail:
  assumes "w (database_url environ) = Inr sess"
  shows "(sql_exec count_nullifiers_query (tables sess) = Inr (Some [[IntV 0]], tables sess) \<longrightarrow>
            recent_nullifiers_query \<notin> set (issued (snd (main f environ w)))
            \<and> filter (\<lambda>q. table_of q = ''nullifiers'') (issued (snd (main f environ w)))
                = [count_nullifiers_query])
       \<and> (sql_exec count_commits_query (tables sess) = Inr (Some [[IntV 0]], tables sess) \<longrightarrow>
            recent_commits_query \<notin> set (issued (snd (main f environ w)))
            \<and> filter (\<lambda>q. table_of q = ''ads_state_commits'') (issued (snd (main f environ w)))
                = (if ok (outcome (check_nullifiers f) sess) then [count_commits_query] else []))"
proof -
  note sN = nullifiers_statements[of f sess] and sC = commits_statements[of f sess]
    and mi = main_issued[where w = w and environ = environ and sess = sess, OF assms]
  let ?issued = "issued (snd (main f environ w))"
  have nullifiers: "recent_nullifiers_query \<notin> set ?issued
      \<and> filter (\<lambda>q. table_of q = ''nullifiers'') ?issued = [count_nullifiers_query]"
    if "sql_exec count_nullifiers_query (tables sess) = Inr (Some [[IntV 0]], tables sess)"
  proof -
    from that have z: "statements (events (check_nullifiers f) sess) = [count_nullifiers_query]"
      by (rule nullifiers_zero)
    have only: "filter (\<lambda>q. table_of q = ''nullifiers'') ?issued = [count_nullifiers_query]"
      using sC by (auto simp: mi z)
    have "recent_nullifiers_query \<notin> set ?issued"
      by (rule filter_excludes[OF only]) (simp_all add: queries_distinct)
    then show ?thesis
      using only by simp
  qed
  have commits: "recent_commits_query \<notin> set ?issued
      \<and> filter (\<lambda>q. table_of q = ''ads_state_commits'') ?issued
          = (if ok (outcome (check_nullifiers f) sess) then [count_commits_query] else [])"
    if "sql_exec count_commits_query (tables sess) = Inr (Some [[IntV 0]], tables sess)"
  proof -
    from that have z: "statements (events (check_commits f) sess) = [count_commits_query]"
      by (rule commits_zero)
    have only: "filter (\<lambda>q. table_of q = ''ads_state_commits'') ?issued
          = (if ok (outcome (check_nullifiers f) sess) then [count_commits_query] else [])"
      using sN by (auto simp: mi z)
    have "recent_commits_query \<notin> set ?issued"
      by (rule filter_excludes[OF only]) (simp_all add: queries_distinct)
    then show ?thesis
      using only by simp
  qed
  from nullifiers commits show ?thesis
    by blast
qed

theorem zero_count_skips_detail_witness:
  "empty_world (database_url Map.empty) = Inr empty_session
   \<and> sql_exec count_nullifiers_query (tables empty_session) = Inr (Some [[IntV 0]], tables empty_session)
   \<and> sql_exec count_commits_query (tables empty_session) = Inr (Some [[IntV 0]], tables empty_session)
   \<and> ok (outcome (check_nullifiers str_int) empty_session)
   \<and> recent_nullifiers_query \<notin> set (issued (snd (main str_int Map.empty empty_world)))
   \<and> recent_commits_query \<notin> set (issued (snd (main str_int Map.empty empty_world)))
   \<and> filter (\<lambda>q. table_of q = ''nullifiers'') (issued (snd (main str_int Map.empty empty_world)))
       = [count_nullifiers_query]
   \<and> filter (\<lambda>q. table_of q = ''ads_state_commits'') (issued (snd (main str_int Map.empty empty_world)))
       = [count_commits_query]
   \<and> issued (snd (main str_int Map.empty empty_world))
       = [count_nullifiers_query, count_commits_query, tree_state_query, recent_batches_query]"
proof -
  have session: "empty_world (database_url Map.empty) = Inr empty_session"
    by (rule example_connections)
  have counts: "sql_exec count_nullifiers_query (tables empty_session)
        = Inr (Some [[IntV 0]], tables empty_session)"
    "sql_exec count_commits_query (tables empty_session)
        = Inr (Some [[IntV 0]], tables empty_session)"
    by (simp_all add: example_defs query_defs select_count)
  have reached: "ok (outcome (check_nullifiers str_int) empty_session)"
    by (simp add: empty_nullifiers ok_def)
  have all: "issued (snd (main str_int Map.empty empty_world))
       = [count_nullifiers_query, count_commits_query, tree_state_query, recent_batches_query]"
    by (simp add: issued_def empty_log)
  from zero_count_skips_detail[where w = empty_world and environ = Map.empty
      and sess = empty_session and f = str_int, OF session] session counts reached all
  show ?thesis
    by simp
qed

subsection \<open>The detail results\<close>

text \<open>
  Claim C2. The only \<^verbatim>\<open>fetchall\<close> calls are those for the recent nullifiers, the
  recent state commits and the recent proof batches. In every run, whatever the
  environment and the world, each sequence fetched has at most 3 tuples and is ordered by
  creation time, newest first.
\<close>

theorem detail_results_bounded_and_ordered:
  "\<forall>rows \<in> set (fetched (log (snd (main f environ w)))). length rows \<le> 3 \<and> newest_first rows"
proof (cases "w (database_url environ)")
  case (Inl e)
  then show ?thesis
    by (simp add: main_log body_outcome_unfold try_body_refused)
next
  case (Inr sess)
  note tb = try_body_connected[where w = w and url = "database_url environ" and sess = sess, OF Inr]
  show ?thesis
    using nullifiers_fetched[of _ f sess] commits_fetched[of _ f sess] batches_fetched[of _ f sess]
    by (auto simp: main_log body_outcome_unfold tb tree_state_fetched split: sum.splits if_splits)
qed

theorem detail_results_bounded_and_ordered_witness:
  "fetched (log (snd (main str_int Map.empty sample_world))) =
     [[[TextV ''n3'', IntV 3, TimeV 500], [TextV ''n4'', IntV 4, TimeV 400],
       [TextV ''n1'', IntV 1, TimeV 300]],
      [[IntV 2, TimeV 450], [IntV 1, TimeV 150]],
      [[IntV 3, IntV 1, TextV ''pending'', TimeV 550], [IntV 2, IntV 2, TextV ''proven'', TimeV 450],
       [IntV 4, IntV 7, TextV ''pending'', TimeV 350]]]
   \<and> newest_first [[TextV ''n3'', IntV 3, TimeV 500], [TextV ''n4'', IntV 4, TimeV 400],
         [TextV ''n1'', IntV 1, TimeV 300]]
   \<and> newest_first [[IntV 2, TimeV 450], [IntV 1, TimeV 150]]
   \<and> newest_first [[IntV 3, IntV 1, TextV ''pending'', TimeV 550],
         [IntV 2, IntV 2, TextV ''proven'', TimeV 450], [IntV 4, IntV 7, TextV ''pending'', TimeV 350]]"
  using detail_results_bounded_and_ordered[of str_int Map.empty sample_world]
  by (simp add: sample_log sample_nullifiers sample_commits sample_tree_state sample_batches)

subsection \<open>The connection cannot be established\<close>

text \<open>
  Claim C3. If \<^verbatim>\<open>psycopg2.connect\<close> raises, the run consists of the connection attempt
  and the handler's two \<^verbatim>\<open>print\<close> calls; the second printed line contains the
  connection string that was tried, and no statement is sent.
\<close>

theorem connection_failure_reported:
  "w (database_url environ) = Inl e \<Longrightarrow>
   log (snd (main f environ w)) =
     [Connect (database_url environ), Print (error_line e),
      Print (hint_line (database_url environ))]
   \<and> sublist (database_url environ) (hint_line (database_url environ))
   \<and> issued (snd (main f environ w)) = []"
  by (simp add: main_outcome body_outcome_unfold try_body_refused issued_def hint_line_contains)

theorem connection_failure_reported_witness:
  "unreachable (database_url Map.empty) = Inl (OperationalError
       ''could not connect to postgres://postgres@localhost:5432/postgres'')
   \<and> stdout (snd (main str_int Map.empty unreachable)) =
     [cross @ '' Error connecting to database: could not connect to postgres://postgres@localhost:5432/postgres'',
      bulb @ '' Make sure DATABASE_URL is set correctly: postgres://postgres@localhost:5432/postgres'']
   \<and> issued (snd (main str_int Map.empty unreachable)) = []"
  using connection_failure_reported[of unreachable Map.empty
      "OperationalError ''could not connect to postgres://postgres@localhost:5432/postgres''" str_int]
  by (simp add: unreachable_def database_url_def stdout_def error_line_def hint_line_def)

subsection \<open>No tree state\<close>



subsection \<open>The exit status\<close>




subsection \<open>Nothing is written to the database\<close>

text \<open>
  Claim C6. In every run each statement sent is a \<^verbatim>\<open>SELECT\<close>, and the session at the
  other end of the connection (its tables included) is at the end of the run what it
  was when the connection was made. The run's state holds nothing else but the log,
  whose entries besides the reads and the two \<^verbatim>\<open>close\<close> calls are the printed lines.
\<close>

theorem no_writes:
  "(\<forall>q \<in> set (issued (snd (main f environ w))). read_only q)
   \<and> server (snd (main f environ w)) =
       (case w (database_url environ) of Inl e \<Rightarrow> None | Inr sess \<Rightarrow> Some sess)"
proof (cases "w (database_url environ)")
  case (Inl e)
  then show ?thesis
    by (simp add: main_log main_server issued_def body_outcome_refused)
next
  case (Inr sess)
  note mi = main_issued[where w = w and environ = environ and sess = sess, OF Inr]
  show ?thesis
    using nullifiers_statements[of f sess] commits_statements[of f sess]
    by (auto simp: mi Inr main_server_connected split: if_splits)
qed

theorem no_writes_witness:
  "issued (snd (main str_int Map.empty sample_world)) =
     [count_nullifiers_query, recent_nullifiers_query, count_commits_query,
      recent_commits_query, tree_state_query, recent_batches_query]
   \<and> read_only recent_batches_query
   \<and> server (snd (main str_int Map.empty sample_world)) = Some sample_session"
  using no_writes[of str_int Map.empty sample_world]
  by (simp add: issued_def sample_log sample_nullifiers sample_commits sample_tree_state
      sample_batches example_connections)

subsection \<open>The order of the run\<close>

text \<open>
  Claim C7. When the body of the \<^verbatim>\<open>try\<close> completes, the stages of the run are exactly
  \<open>linear_order\<close>: connect, nullifiers, state commits, tree state, proof batches, close;
  the close is \<^verbatim>\<open>cur.close()\<close> then \<^verbatim>\<open>conn.close()\<close>, each once, as the last two things the
  run does, and the connection is closed afterwards. When the body raises, the stages
  are a non-empty initial part of that order that stops before the close, neither
  \<^verbatim>\<open>close\<close> call happens, and the last two things the run does are the handler's two
  prints.
\<close>

theorem linear_control_flow:
  "(case fst (body_outcome f environ w) of
      Inr u \<Rightarrow>
        stages (log (snd (main f environ w))) = linear_order
        \<and> suffix [Close_cursor, Close_connection] (log (snd (main f environ w)))
        \<and> filter (\<lambda>e. e = Close_cursor \<or> e = Close_connection) (log (snd (main f environ w)))
            = [Close_cursor, Close_connection]
        \<and> \<not> conn_open (snd (main f environ w))
    | Inl e \<Rightarrow>
        stages (log (snd (main f environ w))) \<noteq> []
        \<and> prefix (stages (log (snd (main f environ w)))) (butlast linear_order)
        \<and> filter (\<lambda>e. e = Close_cursor \<or> e = Close_connection) (log (snd (main f environ w)))
            = []
        \<and> suffix [Print (error_line e), Print (hint_line (database_url environ))]
             (log (snd (main f environ w))))"
proof (cases "w (database_url environ)")
  case (Inl e)
  then show ?thesis
    by (simp add: main_log body_outcome_refused stages_def linear_order_def suffix_def)
next
  case (Inr sess)
  note tb = try_body_connected[where w = w and url = "database_url environ" and sess = sess
      and f = f, OF Inr]
  note quiet = nullifiers_quiet[of f sess] commits_quiet[of f sess] tree_state_quiet[of f sess]
    batches_quiet[of f sess]
  have report: "suffix [Print (error_line e), Print (hint_line (database_url environ))]
      (log (snd (main f environ w)))" if "fst (body_outcome f environ w) = Inl e" for e
    using that by (simp add: main_log suffix_def)
  have flow: "stages (log (snd (main f environ w))) =
      (if fst (body_outcome f environ w) = Inr () then linear_order
       else stages (log (snd (main f environ w))))
      \<and> stages (log (snd (main f environ w))) \<noteq> []
      \<and> (fst (body_outcome f environ w) \<noteq> Inr () \<longrightarrow>
           prefix (stages (log (snd (main f environ w)))) (butlast linear_order))"
    using nullifiers_stages[of f sess] commits_stages[of f sess]
    by (auto simp: main_log body_outcome_unfold tb stages_def linear_order_def tree_state_stages
        batches_stages ok_iff split: sum.splits)
  have closes: "filter (\<lambda>e. e = Close_cursor \<or> e = Close_connection)
        (log (snd (main f environ w))) =
      (if fst (body_outcome f environ w) = Inr () then [Close_cursor, Close_connection] else [])"
    using quiet
    by (auto simp: main_log body_outcome_unfold tb quiet_closes ok_iff split: sum.splits)
  have closed: "suffix [Close_cursor, Close_connection] (log (snd (main f environ w)))
      \<and> \<not> conn_open (snd (main f environ w))" if "fst (body_outcome f environ w) = Inr ()"
    using that
    by (auto simp: main_log main_conn_open body_outcome_unfold tb ok_iff suffix_def
        split: if_splits)
  show ?thesis
  proof (cases "fst (body_outcome f environ w)")
    case (Inl e)
    with flow closes report[OF Inl] show ?thesis by simp
  next
    case (Inr u)
    with flow closes closed show ?thesis by simp
  qed
qed

theorem linear_control_flow_witness:
  "fst (body_outcome str_int Map.empty sample_world) = Inr ()
   \<and> stages (log (snd (main str_int Map.empty sample_world))) =
       [Connecting, Querying ''nullifiers'', Querying ''ads_state_commits'',
        Querying ''tree_state'', Querying ''proof_batches'', Closing]
   \<and> suffix [Close_cursor, Close_connection] (log (snd (main str_int Map.empty sample_world)))
   \<and> filter (\<lambda>e. e = Close_cursor \<or> e = Close_connection)
        (log (snd (main str_int Map.empty sample_world))) = [Close_cursor, Close_connection]
   \<and> \<not> conn_open (snd (main str_int Map.empty sample_world))
   \<and> fst (body_outcome str_int Map.empty dropped_world)
       = Inl (OperationalError ''server closed the connection unexpectedly'')
   \<and> stages (log (snd (main str_int Map.empty dropped_world))) =
       [Connecting, Querying ''nullifiers'', Querying ''ads_state_commits'']
   \<and> filter (\<lambda>e. e = Close_cursor \<or> e = Close_connection)
        (log (snd (main str_int Map.empty dropped_world))) = []"
  using linear_control_flow[of str_int Map.empty sample_world]
    linear_control_flow[of str_int Map.empty dropped_world]
  by (simp add: sample_log(1) dropped_log main_log sample_nullifiers stages_def linear_order_def)

subsection \<open>The proof batches\<close>

text \<open>
  Claim C8. Whenever the three earlier parts raised nothing, the statement for the recent
  proof batches is sent, it is the last statement of the run and the only one about
  that table (no count precedes it), and it has no \<^verbatim>\<open>WHERE\<close> clause. If the table then
  holds no row (and the server answers), the sequence fetched is empty, the header is
  the last line printed, and the two \<^verbatim>\<open>close\<close> calls follow it directly.
\<close>

theorem batches_fetched_unconditionally:
  assumes "w (database_url environ) = Inr sess"
    and "ok (outcome (check_nullifiers f) sess)"
    and "ok (outcome (check_commits f) sess)"
    and "ok (outcome (check_tree_state f) sess)"
  shows "filter (\<lambda>q. table_of q = ''proof_batches'') (issued (snd (main f environ w)))
           = [recent_batches_query]
         \<and> last (issued (snd (main f environ w))) = recent_batches_query
         \<and> filter_of recent_batches_query = None
         \<and> (refuses sess recent_batches_query = None \<and> tables sess ''proof_batches'' = Some []
              \<longrightarrow> fetched (log (snd (main f environ w)))
                    = fetched (events (check_nullifiers f) sess)
                      @ fetched (events (check_commits f) sess) @ [[]]
                \<and> suffix [Execute recent_batches_query, Fetchall [], Print batches_header,
                           Close_cursor, Close_connection] (log (snd (main f environ w)))
                \<and> last (stdout (snd (main f environ w))) = batches_header)"
proof -
  note tb = try_body_connected[where w = w and url = "database_url environ" and sess = sess
      and f = f, OF assms(1)]
  note mi = main_issued[where w = w and environ = environ and sess = sess and f = f, OF assms(1)]
  have "filter (\<lambda>q. table_of q = ''proof_batches'') (issued (snd (main f environ w)))
           = [recent_batches_query]"
    using nullifiers_statements[of f sess] commits_statements[of f sess] assms(2-4)
    by (auto simp: mi)
  moreover have "last (issued (snd (main f environ w))) = recent_batches_query"
    using assms(2-4) by (simp add: mi)
  moreover have "filter_of recent_batches_query = None"
    by (simp add: recent_batches_query_def)
  moreover have "fetched (log (snd (main f environ w)))
                    = fetched (events (check_nullifiers f) sess)
                      @ fetched (events (check_commits f) sess) @ [[]]
                \<and> suffix [Execute recent_batches_query, Fetchall [], Print batches_header,
                           Close_cursor, Close_connection] (log (snd (main f environ w)))
                \<and> last (stdout (snd (main f environ w))) = batches_header"
    if "refuses sess recent_batches_query = None" and "tables sess ''proof_batches'' = Some []"
  proof -
    note B = batches_empty[OF that, of f]
    have whole: "log (snd (main f environ w)) =
        (Connect (database_url environ) # Print banner # events (check_nullifiers f) sess
          @ events (check_commits f) sess @ events (check_tree_state f) sess)
        @ [Execute recent_batches_query, Fetchall [], Print batches_header,
           Close_cursor, Close_connection]"
      using assms(2-4) by (simp add: main_log body_outcome_unfold tb B ok_def)
    show ?thesis
      by (simp add: whole stdout_def tree_state_fetched suffix_def)
  qed
  ultimately show ?thesis
    by blast
qed

theorem batches_fetched_unconditionally_witness:
  "empty_world (database_url Map.empty) = Inr empty_session
   \<and> ok (outcome (check_nullifiers str_int) empty_session)
   \<and> ok (outcome (check_commits str_int) empty_session)
   \<and> ok (outcome (check_tree_state str_int) empty_session)
   \<and> refuses empty_session recent_batches_query = None
   \<and> tables empty_session ''proof_batches'' = Some []
   \<and> issued (snd (main str_int Map.empty empty_world)) =
        [count_nullifiers_query, count_commits_query, tree_state_query, recent_batches_query]
   \<and> fetched (log (snd (main str_int Map.empty empty_world))) = [[]]
   \<and> last (stdout (snd (main str_int Map.empty empty_world))) = batches_header"
proof -
  have session: "empty_world (database_url Map.empty) = Inr empty_session"
    by (rule example_connections)
  have parts: "ok (outcome (check_nullifiers str_int) empty_session)"
    "ok (outcome (check_commits str_int) empty_session)"
    "ok (outcome (check_tree_state str_int) empty_session)"
    by (simp_all add: empty_nullifiers empty_commits empty_tree_state ok_def)
  have table: "refuses empty_session recent_batches_query = None"
    "tables empty_session ''proof_batches'' = Some []"
    by (simp_all add: example_defs)
  from batches_fetched_unconditionally[where w = empty_world and environ = Map.empty
      and sess = empty_session and f = str_int, OF session parts] session parts table
  show ?thesis
    by (simp add: issued_def empty_log empty_nullifiers empty_commits)
qed

subsection \<open>The connection string\<close>

text \<open>
  Claim C9. The run makes exactly one connection attempt. Without \<^verbatim>\<open>DATABASE_URL\<close> in the
  environment it is to \<^verbatim>\<open>postgres://postgres@localhost:5432/postgres\<close>; with the variable
  set it is to the variable's value.
\<close>

theorem connection_string_default:
  "(environ ''DATABASE_URL'' = None \<longrightarrow>
      connections (log (snd (main f environ w))) = [''postgres://postgres@localhost:5432/postgres''])
   \<and> (\<forall>v. environ ''DATABASE_URL'' = Some v \<longrightarrow>
      connections (log (snd (main f environ w))) = [v])"
  by (simp add: main_connections database_url_def)

theorem connection_string_default_witness:
  "Map.empty ''DATABASE_URL'' = (None :: string option)
   \<and> connections (log (snd (main str_int Map.empty sample_world)))
       = [''postgres://postgres@localhost:5432/postgres'']
   \<and> [''DATABASE_URL'' \<mapsto> ''postgres://ads@db:5432/ads''] ''DATABASE_URL''
       = Some ''postgres://ads@db:5432/ads''
   \<and> connections (log (snd (main str_int [''DATABASE_URL'' \<mapsto> ''postgres://ads@db:5432/ads'']
         sample_world))) = [''postgres://ads@db:5432/ads'']"
  using connection_string_default[of Map.empty str_int sample_world]
    connection_string_default[of "[''DATABASE_URL'' \<mapsto> ''postgres://ads@db:5432/ads'']"
      str_int sample_world]
  by simp

subsection \<open>A failure after the connection was made\<close>

text \<open>
  Claim C10. If the connection was made and the body of the \<^verbatim>\<open>try\<close> then raises, neither
  \<^verbatim>\<open>close\<close> call happens and the connection is still open when the script ends; the
  log, and so standard output, is what the body had produced when it raised, followed by
  the handler's two lines.
\<close>

theorem failure_skips_close:
  assumes "w (database_url environ) = Inr sess"
    and "fst (body_outcome f environ w) = Inl e"
  shows "Close_cursor \<notin> set (log (snd (main f environ w)))
         \<and> Close_connection \<notin> set (log (snd (main f environ w)))
         \<and> conn_open (snd (main f environ w))
         \<and> log (snd (main f environ w)) =
             log (snd (body_outcome f environ w))
             @ [Print (error_line e), Print (hint_line (database_url environ))]
         \<and> stdout (snd (main f environ w)) =
             stdout (snd (body_outcome f environ w))
             @ [error_line e, hint_line (database_url environ)]"
proof -
  note tb = try_body_connected[where w = w and url = "database_url environ" and sess = sess
      and f = f, OF assms(1)]
  have whole: "log (snd (main f environ w)) =
             log (snd (body_outcome f environ w))
             @ [Print (error_line e), Print (hint_line (database_url environ))]"
    by (simp add: main_log assms(2))
  have failed: "\<not> (ok (outcome (check_nullifiers f) sess) \<and> ok (outcome (check_commits f) sess)
      \<and> ok (outcome (check_tree_state f) sess) \<and> ok (outcome (check_batches f) sess))"
    using assms(2) by (auto simp: body_outcome_unfold tb ok_iff split: if_splits)
  have "Close_cursor \<notin> set (log (snd (body_outcome f environ w)))
      \<and> Close_connection \<notin> set (log (snd (body_outcome f environ w)))"
    using failed nullifiers_quiet[of f sess] commits_quiet[of f sess] tree_state_quiet[of f sess]
      batches_quiet[of f sess]
    by (auto simp: body_outcome_unfold tb split: if_splits)
  moreover have "conn_open (snd (main f environ w))"
    using failed by (simp add: main_conn_open body_outcome_unfold tb)
  ultimately show ?thesis
    by (simp add: whole stdout_def)
qed

theorem failure_skips_close_witness:
  "dropped_world (database_url Map.empty) = Inr dropped_session
   \<and> fst (body_outcome str_int Map.empty dropped_world)
       = Inl (OperationalError ''server closed the connection unexpectedly'')
   \<and> Close_cursor \<notin> set (log (snd (main str_int Map.empty dropped_world)))
   \<and> Close_connection \<notin> set (log (snd (main str_int Map.empty dropped_world)))
   \<and> conn_open (snd (main str_int Map.empty dropped_world))
   \<and> stdout (snd (main str_int Map.empty dropped_world)) =
       [banner, nullifier_count_line str_int (IntV 5), nullifiers_header,
        nullifier_line str_int (TextV ''n3'') (IntV 3) (TimeV 500),
        nullifier_line str_int (TextV ''n4'') (IntV 4) (TimeV 400),
        nullifier_line str_int (TextV ''n1'') (IntV 1) (TimeV 300),
        commit_count_line str_int (IntV 2),
        error_line (OperationalError ''server closed the connection unexpectedly''),
        hint_line ''postgres://postgres@localhost:5432/postgres'']"
proof -
  have session: "dropped_world (database_url Map.empty) = Inr dropped_session"
    by (rule example_connections)
  have raised: "fst (body_outcome str_int Map.empty dropped_world)
       = Inl (OperationalError ''server closed the connection unexpectedly'')"
    by (rule dropped_log)
  from failure_skips_close[where w = dropped_world and environ = Map.empty
      and sess = dropped_session and f = str_int, OF session raised] session raised show ?thesis
    by (simp add: stdout_def dropped_log sample_nullifiers database_url_def)
qed

end
